theory Spec2Isabelle
  imports Main "HOL-Library.AList"
begin

section \<open>The GraphQL schema as the converter reads it\<close>

text \<open>
  The converter works on a schema built by the graphql package.  Named types are unique
  objects of a schema, so an object type and an input-object type are referred to by name
  and their fields are looked up in the schema; this admits self-referential and mutually
  cyclic types.  A thrown \<open>Error\<close> is a value carrying its message.
\<close>

datatype error = Error (message: string)

datatype GraphQLInputType =
    InScalar string
  | InEnum string "string list"
  | InInputObject string
  | InList GraphQLInputType
  | InNonNull GraphQLInputType

datatype GraphQLOutputType =
    OutScalar string
  | OutEnum string
  | OutObject string
  | OutInterface string
  | OutUnion string
  | OutList GraphQLOutputType
  | OutNonNull GraphQLOutputType

text \<open>
  The \<open>description\<close> of an argument or input field stands for the value of the expression
  \<open>x.description?.trim() ?? parseNodeDescription(...)\<close> that \<open>visit\<close> hands to
  \<open>processField\<close>, and that of a field for \<open>field.description?.trim()\<close>.
\<close>

record GraphQLArgument =
  arg_name :: string
  arg_type :: GraphQLInputType
  arg_description :: "string option"

record GraphQLInputField =
  inf_name :: string
  inf_type :: GraphQLInputType
  inf_description :: "string option"

record GraphQLField =
  field_name :: string
  field_description :: "string option"
  field_args :: "GraphQLArgument list"
  field_type :: GraphQLOutputType

record GraphQLSchema =
  getQueryType :: "string option"
  getMutationType :: "string option"
  getFields :: "string \<Rightarrow> GraphQLField list"
  getInputFields :: "string \<Rightarrow> GraphQLInputField list"

text \<open>\<open>`${type}`\<close>: the name of a named type, \<open>[T]\<close> for a list, \<open>T!\<close> for non-null.\<close>

fun typeToString :: "GraphQLInputType \<Rightarrow> string" where
  "typeToString (InScalar n) = n"
| "typeToString (InEnum n vs) = n"
| "typeToString (InInputObject n) = n"
| "typeToString (InList t) = ''['' @ typeToString t @ '']''"
| "typeToString (InNonNull t) = typeToString t @ ''!''"

section \<open>Tool definitions\<close>

text \<open>
  A JavaScript object literal inherits the members of \<open>Object.prototype\<close>.  Reading
  such a name from a literal that has no entry of its own for it gives the inherited
  member, a function (for \<open>__proto__\<close> the prototype itself), which is truthy.
  Assigning to \<open>__proto__\<close> calls the inherited setter: it replaces the prototype of the
  object and gives it no key of its own; any other name becomes a key of the object.
\<close>

definition objectPrototypeMembers :: "string list" where
  "objectPrototypeMembers =
     [''constructor'', ''__defineGetter__'', ''__defineSetter__'', ''hasOwnProperty'',
      ''__lookupGetter__'', ''__lookupSetter__'', ''isPrototypeOf'', ''propertyIsEnumerable'',
      ''toString'', ''valueOf'', ''__proto__'', ''toLocaleString'']"

text \<open>
  The \<open>type\<close> of a descriptor is declared a string.  What the converter stores there is
  a string, or the member of \<open>Object.prototype\<close> its table lookup came back with.
\<close>

datatype TypeField = TypeString string | InheritedMember string

datatype FunctionDefinitionArgument =
  FunctionDefinitionArgument
    (fda_type: TypeField)
    (fda_description: "string option")
    (fda_enum: "string set option")
    (fda_items: "FunctionDefinitionArgument option")

fun set_description :: "string option \<Rightarrow> FunctionDefinitionArgument \<Rightarrow> FunctionDefinitionArgument" where
  "set_description d (FunctionDefinitionArgument t _ e i) = FunctionDefinitionArgument t d e i"

text \<open>
  \<open>properties\<close> is a JavaScript object: the association list of its own keys in
  insertion order.  \<open>object[name] = value\<close> keeps the position of a key the object has
  and appends a new one (\<open>AList.update\<close>), except for \<open>__proto__\<close>, which adds no key.
\<close>

definition assignProperty :: "string \<Rightarrow> 'v \<Rightarrow> (string \<times> 'v) list \<Rightarrow> (string \<times> 'v) list" where
  "assignProperty name v object =
     (if name = ''__proto__'' then object else AList.update name v object)"

record FunctionDefinitionParameters =
  params_type :: string
  properties :: "(string \<times> FunctionDefinitionArgument) list"
  required :: "string list"

record FunctionDefinition =
  fd_name :: string
  fd_description :: "string option"
  parameters :: FunctionDefinitionParameters

section \<open>The type mapper\<close>

record UnwrappedType =
  ut_type :: GraphQLInputType
  ut_required :: bool

definition convertRequired :: "GraphQLInputType \<Rightarrow> UnwrappedType" where
  "convertRequired t =
     (case t of
        InNonNull ofType \<Rightarrow> \<lparr>ut_type = ofType, ut_required = True\<rparr>
      | _ \<Rightarrow> \<lparr>ut_type = t, ut_required = False\<rparr>)"

definition defaultScalarType :: string where
  "defaultScalarType = ''string''"

text \<open>The five entries of the table, an object literal.\<close>

definition scalarTypeMap :: "(string \<times> string) list" where
  "scalarTypeMap =
     [(''Int'', ''integer''), (''Float'', ''number''), (''String'', ''string''),
      (''Boolean'', ''boolean''), (''ID'', ''string'')]"

text \<open>
  \<open>scalarTypeMap[n] || defaultScalarType\<close>: the entry of the table when it has one (the
  default when the entry is empty), the inherited member when \<open>n\<close> names one, and the
  default when the lookup gives \<open>undefined\<close>.
\<close>

definition scalarKind :: "string \<Rightarrow> TypeField" where
  "scalarKind n =
     (case map_of scalarTypeMap n of
        Some k \<Rightarrow> if k = [] then TypeString defaultScalarType else TypeString k
      | None \<Rightarrow>
          if n \<in> set objectPrototypeMembers then InheritedMember n
          else TypeString defaultScalarType)"

lemma size_convertRequired: "size (ut_type (convertRequired t)) \<le> size t"
  by (cases t) (simp_all add: convertRequired_def)

function convertToArgument :: "GraphQLInputType \<Rightarrow> error + FunctionDefinitionArgument" where
  "convertToArgument (InScalar n) =
     Inr (FunctionDefinitionArgument (scalarKind n) None None None)"
| "convertToArgument (InEnum n vs) =
     Inr (FunctionDefinitionArgument (TypeString ''string'') None (Some (set vs)) None)"
| "convertToArgument (InList ofType) =
     (case convertToArgument (ut_type (convertRequired ofType)) of
        Inl e \<Rightarrow> Inl e
      | Inr items \<Rightarrow> Inr (FunctionDefinitionArgument (TypeString ''array'') None None (Some items)))"
| "convertToArgument (InInputObject n) =
     Inl (Error (''Unsupported type: '' @ typeToString (InInputObject n)))"
| "convertToArgument (InNonNull t) =
     Inl (Error (''Unsupported type: '' @ typeToString (InNonNull t)))"
  by pat_completeness auto
termination
proof (relation "measure size")
  show "wf (measure (size :: GraphQLInputType \<Rightarrow> nat))" by simp
next
  fix ofType :: GraphQLInputType
  have "size (ut_type (convertRequired ofType)) \<le> size ofType"
    by (rule size_convertRequired)
  then show "(ut_type (convertRequired ofType), InList ofType) \<in> measure size"
    by simp
qed

section \<open>Tools and their executor\<close>

text \<open>
  The executor, the validation result and the query wrapper are interfaces of the
  repository that the tool calls into: \<open>validate(func)\<close> and \<open>validate(func, args)\<close>
  are one method with an optional second argument, and \<open>executeQuery\<close> returns a promise,
  which is settled either with a string or with a rejection.
\<close>

datatype json =
    JNull
  | JBool bool
  | JNumber int
  | JString string
  | JArray "json list"
  | JObject "(string \<times> json) list"

type_synonym arguments = "string \<rightharpoonup> json"

datatype ApiQuery = GraphQLQuery (query: string)

record ValidationResult =
  isValid :: bool
  errorMessage :: "string option"

record APIQueryExecutor =
  ex_validate :: "FunctionDefinition \<Rightarrow> arguments option \<Rightarrow> ValidationResult"
  ex_executeQuery :: "ApiQuery \<Rightarrow> arguments \<Rightarrow> error + string"
  ex_toString :: string

record ToolCall =
  tc_name :: string
  tc_arguments :: arguments

record APIFunction =
  func :: FunctionDefinition
  contextKeys :: "string list"
  apiQuery :: ApiQuery
  apiExecutor :: APIQueryExecutor

text \<open>A template literal prints an absent value as \<open>undefined\<close>.\<close>

definition templateString :: "string option \<Rightarrow> string" where
  "templateString v = (case v of None \<Rightarrow> ''undefined'' | Some s \<Rightarrow> s)"

definition createInvalidCallMessage :: "string \<Rightarrow> string option \<Rightarrow> string" where
  "createInvalidCallMessage functionName errorMsg =
     ''It looks like you tried to call function `'' @ functionName @ ''`, '' @
     ''but this has failed with the following error: '' @ templateString errorMsg @ ''. '' @
     ''Please retry to call the function again. Send ONLY the JSON as a response.''"

text \<open>The constructor: an invalid definition is refused.\<close>

definition APIFunction_new ::
  "FunctionDefinition \<Rightarrow> string list \<Rightarrow> ApiQuery \<Rightarrow> APIQueryExecutor \<Rightarrow> error + APIFunction" where
  "APIFunction_new f keys q ex =
     (let validationResult = ex_validate ex f None in
      if \<not> isValid validationResult then
        Inl (Error (''Function ['' @ fd_name f @ ''] invalid for API ['' @ ex_toString ex @ '']: '' @
                    templateString (errorMessage validationResult)))
      else Inr \<lparr>func = f, contextKeys = keys, apiQuery = q, apiExecutor = ex\<rparr>)"

definition getName :: "APIFunction \<Rightarrow> string" where
  "getName t = fd_name (func t)"

text \<open>\<open>toLowerCase\<close> on the letters A to Z; other characters are kept.\<close>

definition toLowerChar :: "char \<Rightarrow> char" where
  "toLowerChar c =
     (case map_of (zip ''ABCDEFGHIJKLMNOPQRSTUVWXYZ'' ''abcdefghijklmnopqrstuvwxyz'') c of
        None \<Rightarrow> c
      | Some l \<Rightarrow> l)"

definition toLowerCase :: "string \<Rightarrow> string" where
  "toLowerCase s = map toLowerChar s"

definition getFieldFilter :: "string list \<Rightarrow> string \<Rightarrow> bool" where
  "getFieldFilter fieldList =
     (let contextFilter = set (map toLowerCase fieldList) in
      (\<lambda>field. toLowerCase field \<notin> contextFilter))"

text \<open>
  \<open>Object.keys(data).filter(filter).reduce(...)\<close>: the kept keys are copied, in order,
  into a fresh object.
\<close>

definition filterObjectKeys ::
  "(string \<Rightarrow> bool) \<Rightarrow> (string \<times> 'v) list \<Rightarrow> (string \<times> 'v) list" where
  "filterObjectKeys flt data =
     (let filteredKeys = filter flt (map fst data) in
      foldl (\<lambda>acc fieldKey. AList.update fieldKey (the (map_of data fieldKey)) acc) [] filteredKeys)"

definition getModelFunction :: "APIFunction \<Rightarrow> FunctionDefinition" where
  "getModelFunction t =
     (let fieldFilter = getFieldFilter (contextKeys t);
          newParams =
            \<lparr>params_type = params_type (parameters (func t)),
             properties = filterObjectKeys fieldFilter (properties (parameters (func t))),
             required = filter fieldFilter (required (parameters (func t)))\<rparr>
      in \<lparr>fd_name = fd_name (func t),
          fd_description = fd_description (func t),
          parameters = newParams\<rparr>)"

definition validate :: "APIFunction \<Rightarrow> arguments \<Rightarrow> ValidationResult" where
  "validate t argumentsNode = ex_validate (apiExecutor t) (getModelFunction t) (Some argumentsNode)"

text \<open>
  Modelled from the spec: the runtime context and the helper \<open>addOrOverrideFromContext\<close>
  of the utils module, which are not among the sources.  The spec (4.5): argument values
  for context keys are substituted from a runtime context map keyed by the same names
  (case-insensitive), overriding or adding to whatever the caller passed.  A context
  that holds no value for a key leaves the caller's arguments as they are there.
\<close>

type_synonym Context = "(string \<times> json) list"

definition DefaultContext :: Context where
  "DefaultContext = []"

definition context_get :: "Context \<Rightarrow> string \<Rightarrow> json option" where
  "context_get context key =
     map_of (map (\<lambda>(k, v). (toLowerCase k, v)) context) (toLowerCase key)"

definition addOrOverrideFromContext :: "arguments \<Rightarrow> string list \<Rightarrow> Context \<Rightarrow> arguments" where
  "addOrOverrideFromContext argumentsNode keys context =
     fold (\<lambda>key acc. case context_get context key of
                         None \<Rightarrow> acc
                       | Some v \<Rightarrow> acc(key \<mapsto> v))
          keys argumentsNode"

definition execute :: "APIFunction \<Rightarrow> arguments \<Rightarrow> Context \<Rightarrow> error + string" where
  "execute t argumentsNode context =
     (let variables = addOrOverrideFromContext argumentsNode (contextKeys t) context in
      ex_executeQuery (apiExecutor t) (apiQuery t) variables)"

definition validateAndExecute :: "APIFunction \<Rightarrow> arguments \<Rightarrow> Context \<Rightarrow> error + string" where
  "validateAndExecute t argumentsNode context =
     (let validationResult = validate t argumentsNode in
      if isValid validationResult then execute t argumentsNode context
      else Inr (createInvalidCallMessage (fd_name (func t)) (errorMessage validationResult)))"

text \<open>
  \<open>JSON.parse\<close> is the language's own; it is a parameter that either throws or gives the
  argument record.  The promise of \<open>validateAndExecute\<close> is returned from inside the
  \<open>try\<close> without being awaited, so the \<open>catch\<close> sees the errors of \<open>JSON.parse\<close> only.
\<close>

definition validateAndExecuteFromString ::
  "(string \<Rightarrow> error + arguments) \<Rightarrow> APIFunction \<Rightarrow> string \<Rightarrow> Context \<Rightarrow> error + string" where
  "validateAndExecuteFromString JSON_parse t argsJson context =
     (case JSON_parse argsJson of
        Inr parsedArguments \<Rightarrow> validateAndExecute t parsedArguments context
      | Inl err \<Rightarrow>
          Inr (createInvalidCallMessage (fd_name (func t))
                 (Some (''Malformed JSON: '' @ message err))))"

text \<open>\<open>new Map(entries)\<close>: of two tools with one name the later one is kept.\<close>

definition toolsMap :: "APIFunction list \<Rightarrow> string \<rightharpoonup> APIFunction" where
  "toolsMap toolDefinitions = map_of (rev (map (\<lambda>t. (getName t, t)) toolDefinitions))"

text \<open>
  \<open>Promise.all\<close>: the values in the order of the promises when all are fulfilled.  When
  several reject, the rejection passed on is taken to be the leftmost one.
\<close>

fun Promise_all :: "(error + 'a) list \<Rightarrow> error + 'a list" where
  "Promise_all [] = Inr []"
| "Promise_all (Inl e # ps) = Inl e"
| "Promise_all (Inr v # ps) = (case Promise_all ps of Inl e \<Rightarrow> Inl e | Inr vs \<Rightarrow> Inr (v # vs))"

text \<open>The two overloads of the static \<open>executeTools\<close>: one call, and an array of calls.\<close>

definition executeTools_single :: "ToolCall \<Rightarrow> APIFunction list \<Rightarrow> error + string" where
  "executeTools_single toolsToCall toolDefinitions =
     (case toolsMap toolDefinitions (tc_name toolsToCall) of
        None \<Rightarrow> Inr []
      | Some apiFunction \<Rightarrow>
          (case validateAndExecute apiFunction (tc_arguments toolsToCall) DefaultContext of
             Inl e \<Rightarrow> Inl e
           | Inr res \<Rightarrow> Inr (if res = [] then [] else res)))"

definition executeTools_array :: "ToolCall list \<Rightarrow> APIFunction list \<Rightarrow> error + string list" where
  "executeTools_array toolsToCall toolDefinitions =
     Promise_all (map (\<lambda>toolCall. executeTools_single toolCall toolDefinitions) toolsToCall)"

text \<open>
  The standard factory binds a definition and a query to its executor and its context
  keys, the two values it is built from where the tools are built, and calls the
  constructor with them.
\<close>

record APIFunctionFactory =
  factory_apiExecutor :: APIQueryExecutor
  factory_contextKeys :: "string list"

definition create :: "APIFunctionFactory \<Rightarrow> FunctionDefinition \<Rightarrow> ApiQuery \<Rightarrow> error + APIFunction" where
  "create factory functionDef q =
     APIFunction_new functionDef (factory_contextKeys factory) q (factory_apiExecutor factory)"

section \<open>The schema traversal\<close>

definition combineStrings :: "string \<Rightarrow> string \<Rightarrow> string" where
  "combineStrings pre suffix = pre @ (if pre \<noteq> [] then ''_'' else []) @ suffix"

text \<open>The \<open>path\<close> holds the object types on the way down, by name.\<close>

record VisitContext =
  operationName :: string
  prefix :: string
  numArgs :: nat
  path :: "string list"

definition nested :: "VisitContext \<Rightarrow> string \<Rightarrow> string \<Rightarrow> nat \<Rightarrow> VisitContext" where
  "nested this fieldName objectType additionalArgs =
     \<lparr>operationName = operationName this @ ''.'' @ fieldName,
      prefix = combineStrings (prefix this) fieldName,
      numArgs = numArgs this + additionalArgs,
      path = path this @ [objectType]\<rparr>"

text \<open>\<open>maxDepth\<close> is read as an integer.\<close>

record GraphQLSchemaConverterConfig =
  operationFilter :: "string \<Rightarrow> string \<Rightarrow> bool"
  maxDepth :: int

text \<open>
  The converter object.  \<open>printFieldType\<close> and \<open>printArgumentType\<close> render the declared
  type of one input field or argument through the printer of the graphql package; they
  are parameters that give the text or throw.
\<close>

record GraphQLSchemaConverter =
  schema :: GraphQLSchema
  functionFactory :: APIFunctionFactory
  config :: GraphQLSchemaConverterConfig
  printFieldType :: "GraphQLInputField \<Rightarrow> error + string"
  printArgumentType :: "GraphQLArgument \<Rightarrow> error + string"

fun unwrapType :: "GraphQLOutputType \<Rightarrow> GraphQLOutputType" where
  "unwrapType (OutList ofType) = unwrapType ofType"
| "unwrapType (OutNonNull ofType) = unwrapType ofType"
| "unwrapType t = t"

text \<open>\<open>type instanceof GraphQLObjectType\<close>, and the name of a named type.\<close>

fun isObjectType :: "GraphQLOutputType \<Rightarrow> bool" where
  "isObjectType (OutObject n) = True"
| "isObjectType _ = False"

fun typeName :: "GraphQLOutputType \<Rightarrow> string" where
  "typeName (OutScalar n) = n"
| "typeName (OutEnum n) = n"
| "typeName (OutObject n) = n"
| "typeName (OutInterface n) = n"
| "typeName (OutUnion n) = n"
| "typeName (OutList t) = ''['' @ typeName t @ '']''"
| "typeName (OutNonNull t) = typeName t @ ''!''"

record ProcessedField =
  pf_argName :: string
  pf_queryHeader :: string
  pf_queryBody :: string

text \<open>
  \<open>processField\<close> mutates \<open>params\<close>; the model returns the updated parameters with the
  three strings.  A throw of the type mapper leaves before any mutation.
\<close>

definition processField ::
  "FunctionDefinitionParameters \<Rightarrow> VisitContext \<Rightarrow> nat \<Rightarrow> UnwrappedType \<Rightarrow> string \<Rightarrow> string \<Rightarrow>
   string option \<Rightarrow> error + (ProcessedField \<times> FunctionDefinitionParameters)" where
  "processField params ctx n unwrappedType argName originalName description =
     (case convertToArgument (ut_type unwrappedType) of
        Inl e \<Rightarrow> Inl e
      | Inr argDef0 \<Rightarrow>
          (let argDef = set_description description argDef0;
               queryBody = (if n > 0 then '', '' else []);
               queryHeader = (if numArgs ctx + n > 0 then '', '' else []);
               params1 = (if ut_required unwrappedType
                          then params\<lparr>required := required params @ [argName]\<rparr>
                          else params);
               params2 = params1\<lparr>properties := assignProperty argName argDef (properties params1)\<rparr>;
               argName' = ''$'' @ argName
           in Inr (\<lparr>pf_argName = argName',
                    pf_queryHeader = queryHeader,
                    pf_queryBody = queryBody @ originalName @ '': '' @ argName'\<rparr>,
                   params2)))"

text \<open>The variables a loop of \<open>visit\<close> updates.\<close>

record VisitState =
  vs_params :: FunctionDefinitionParameters
  vs_numArgs :: nat
  vs_queryParams :: string
  vs_queryBody :: string

text \<open>A \<open>for\<close> loop whose body may throw.\<close>

fun forEach :: "('s \<Rightarrow> 'a \<Rightarrow> error + 's) \<Rightarrow> 'a list \<Rightarrow> 's \<Rightarrow> error + 's" where
  "forEach body [] s = Inr s"
| "forEach body (x # xs) s = (case body s x of Inl e \<Rightarrow> Inl e | Inr s' \<Rightarrow> forEach body xs s')"

text \<open>The body of the loop over the fields of a flattened input object.\<close>

definition visitInputField ::
  "GraphQLSchemaConverter \<Rightarrow> VisitContext \<Rightarrow> VisitState \<Rightarrow> GraphQLInputField \<Rightarrow> error + VisitState" where
  "visitInputField this context st nestedField =
     (let unwrappedType = convertRequired (inf_type nestedField) in
      case processField (vs_params st) context (vs_numArgs st) unwrappedType
             (combineStrings (prefix context) (inf_name nestedField))
             (inf_name nestedField) (inf_description nestedField) of
        Inl e \<Rightarrow> Inl e
      | Inr (processedData, params') \<Rightarrow>
          (case printFieldType this nestedField of
             Inl e \<Rightarrow> Inl e
           | Inr typeString \<Rightarrow>
               Inr \<lparr>vs_params = params',
                    vs_numArgs = vs_numArgs st + 1,
                    vs_queryParams = vs_queryParams st @ pf_queryHeader processedData @
                                     pf_argName processedData @ '': '' @ typeString,
                    vs_queryBody = vs_queryBody st @ pf_queryBody processedData\<rparr>))"

text \<open>The body of the loop over the arguments of a field.\<close>

definition visitArgument ::
  "GraphQLSchemaConverter \<Rightarrow> VisitContext \<Rightarrow> VisitState \<Rightarrow> GraphQLArgument \<Rightarrow> error + VisitState" where
  "visitArgument this context st arg =
     (let unwrappedType = convertRequired (arg_type arg) in
      case ut_type unwrappedType of
        InInputObject inputType \<Rightarrow>
          (case forEach (visitInputField this context)
                  (getInputFields (schema this) inputType)
                  (st\<lparr>vs_queryBody := vs_queryBody st @ arg_name arg @ '': { ''\<rparr>) of
             Inl e \<Rightarrow> Inl e
           | Inr st' \<Rightarrow> Inr (st'\<lparr>vs_queryBody := vs_queryBody st' @ '' }''\<rparr>))
      | _ \<Rightarrow>
          (case processField (vs_params st) context (vs_numArgs st) unwrappedType
                  (combineStrings (prefix context) (arg_name arg))
                  (arg_name arg) (arg_description arg) of
             Inl e \<Rightarrow> Inl e
           | Inr (processedData, params') \<Rightarrow>
               (case printArgumentType this arg of
                  Inl e \<Rightarrow> Inl e
                | Inr typeString \<Rightarrow>
                    Inr \<lparr>vs_params = params',
                         vs_numArgs = vs_numArgs st + 1,
                         vs_queryParams = vs_queryParams st @ pf_queryHeader processedData @
                                          pf_argName processedData @ '': '' @ typeString,
                         vs_queryBody = vs_queryBody st @ pf_queryBody processedData\<rparr>)))"

text \<open>The argument part of \<open>visit\<close>: the field's name, then its arguments in parentheses.\<close>

definition visitArguments ::
  "GraphQLSchemaConverter \<Rightarrow> GraphQLField \<Rightarrow> FunctionDefinitionParameters \<Rightarrow> VisitContext \<Rightarrow>
   error + VisitState" where
  "visitArguments this field params context =
     (let st0 = \<lparr>vs_params = params, vs_numArgs = 0, vs_queryParams = [],
                 vs_queryBody = field_name field\<rparr>
      in if length (field_args field) > 0 then
           (case forEach (visitArgument this context) (field_args field)
                   (st0\<lparr>vs_queryBody := vs_queryBody st0 @ ''(''\<rparr>) of
              Inl e \<Rightarrow> Inl e
            | Inr st \<Rightarrow> Inr (st\<lparr>vs_queryBody := vs_queryBody st @ '')''\<rparr>))
         else Inr st0)"

record VisitResult =
  success :: bool
  queryParams :: string
  queryBody :: string

definition aborted :: VisitResult where
  "aborted = \<lparr>success = False, queryParams = [], queryBody = []\<rparr>"

text \<open>
  \<open>visit\<close>, and the loop over the fields of the object type it expands.  The loop carries
  the parameters, the two texts and \<open>atLeastOneField\<close>.
\<close>

function visit ::
  "GraphQLSchemaConverter \<Rightarrow> GraphQLField \<Rightarrow> FunctionDefinitionParameters \<Rightarrow> VisitContext \<Rightarrow>
   error + (VisitResult \<times> FunctionDefinitionParameters)"
and visitFields ::
  "GraphQLSchemaConverter \<Rightarrow> string \<Rightarrow> VisitContext \<Rightarrow> nat \<Rightarrow> GraphQLField list \<Rightarrow>
   FunctionDefinitionParameters \<times> string \<times> string \<times> bool \<Rightarrow>
   error + (FunctionDefinitionParameters \<times> string \<times> string \<times> bool)"
where
  "visit this field params context =
     (let type = unwrapType (field_type field) in
      if isObjectType type \<and> typeName type \<in> set (path context) then Inr (aborted, params)
      else if isObjectType type \<and> int (length (path context)) + 1 > maxDepth (config this)
      then Inr (aborted, params)
      else
        (case visitArguments this field params context of
           Inl e \<Rightarrow> Inl e
         | Inr st \<Rightarrow>
             if isObjectType type then
               (case visitFields this (typeName type) context (vs_numArgs st)
                       (getFields (schema this) (typeName type))
                       (vs_params st, vs_queryParams st, vs_queryBody st @ '' {\<newline>'', False) of
                  Inl e \<Rightarrow> Inl e
                | Inr (params', queryParams', queryBody', atLeastOneField) \<Rightarrow>
                    if \<not> atLeastOneField then
                      Inl (Error (''Expected at least one field on path: '' @ operationName context))
                    else
                      Inr (\<lparr>success = True, queryParams = queryParams',
                            queryBody = queryBody' @ ''}'' @ ''\<newline>''\<rparr>, params'))
             else
               Inr (\<lparr>success = True, queryParams = vs_queryParams st,
                     queryBody = vs_queryBody st @ ''\<newline>''\<rparr>, vs_params st)))"
| "visitFields this objectType context n [] acc = Inr acc"
| "visitFields this objectType context n (nestedField # rest) acc =
     (case acc of (params, queryParams0, queryBody0, atLeastOneField) \<Rightarrow>
        (case visit this nestedField params (nested context (field_name nestedField) objectType n) of
           Inl e \<Rightarrow> Inl e
         | Inr (r, params') \<Rightarrow>
             visitFields this objectType context n rest
               (params', queryParams0 @ queryParams r, queryBody0 @ queryBody r,
                atLeastOneField \<or> success r)))"
  by pat_completeness auto
termination
proof (relation "inv_image (less_than <*lex*> less_than)
    (\<lambda>x. case x of
        Inl (this, field, params, context) \<Rightarrow>
          (nat (maxDepth (config this) + 1 - int (length (path context))), 0)
      | Inr (this, objectType, context, n, rest, acc) \<Rightarrow>
          (nat (maxDepth (config this) - int (length (path context))), Suc (length rest)))")
  show "wf (inv_image (less_than <*lex*> less_than)
    (\<lambda>x. case x of
        Inl (this, field, params, context) \<Rightarrow>
          (nat (maxDepth (config this) + 1 - int (length (path context))), 0::nat)
      | Inr (this, objectType, context, n, rest, acc) \<Rightarrow>
          (nat (maxDepth (config this) - int (length (path context))), Suc (length rest))))"
    by (intro wf_inv_image wf_lex_prod wf_less_than)
qed (auto simp: nested_def)

section \<open>Converting a schema\<close>

definition initializeFunctionDefinition :: "string \<Rightarrow> string option \<Rightarrow> FunctionDefinition" where
  "initializeFunctionDefinition name description =
     \<lparr>fd_name = name, fd_description = description,
      parameters = \<lparr>params_type = ''object'', properties = [], required = []\<rparr>\<rparr>"

text \<open>
  \<open>visit\<close> fills the parameters of \<open>functionDef\<close> in place; the factory is given the
  definition with the parameters as \<open>visit\<close> left them.
\<close>

definition convertToApiFunction ::
  "GraphQLSchemaConverter \<Rightarrow> string \<Rightarrow> GraphQLField \<Rightarrow> error + APIFunction" where
  "convertToApiFunction this operationType field =
     (let functionDef = initializeFunctionDefinition (field_name field) (field_description field);
          params = parameters functionDef;
          operationName' = toLowerCase operationType @ ''.'' @ field_name field;
          queryHeader = toLowerCase operationType @ '' '' @ field_name field @ ''(''
      in case visit this field params
                \<lparr>operationName = operationName', prefix = [], numArgs = 0, path = []\<rparr> of
           Inl e \<Rightarrow> Inl e
         | Inr (r, params') \<Rightarrow>
             create (functionFactory this) (functionDef\<lparr>parameters := params'\<rparr>)
               (GraphQLQuery (queryHeader @ queryParams r @ '') {\<newline>'' @ queryBody r @ ''\<newline>}'')))"

text \<open>
  What \<open>console.error\<close> is given: the line and the error caught.  The function gives the
  tool, or \<open>null\<close>, and what it logged.
\<close>

type_synonym console = "(string \<times> error) list"

definition createApiFunctionFromGraphQLOperation ::
  "GraphQLSchemaConverter \<Rightarrow> string \<Rightarrow> GraphQLField \<Rightarrow> APIFunction option \<times> console" where
  "createApiFunctionFromGraphQLOperation this operationName' field =
     (if operationFilter (config this) operationName' (field_name field) then
        (case convertToApiFunction this operationName' field of
           Inr t \<Rightarrow> (Some t, [])
         | Inl e \<Rightarrow> (None, [(''Error converting query: '' @ field_name field, e)]))
      else (None, []))"

definition convertSchema :: "GraphQLSchemaConverter \<Rightarrow> APIFunction list \<times> console" where
  "convertSchema this =
     (let queries = (case getQueryType (schema this) of
                       None \<Rightarrow> [] | Some t \<Rightarrow> getFields (schema this) t);
          mutations = (case getMutationType (schema this) of
                         None \<Rightarrow> [] | Some t \<Rightarrow> getFields (schema this) t);
          fromQueries = map (createApiFunctionFromGraphQLOperation this ''query'') queries;
          fromMutations = map (createApiFunctionFromGraphQLOperation this ''mutation'') mutations;
          functionsFromQueries = filter (\<lambda>x. x \<noteq> None) (map fst fromQueries);
          functionsFromMutations = filter (\<lambda>x. x \<noteq> None) (map fst fromMutations)
      in (map the (functionsFromQueries @ functionsFromMutations),
          concat (map snd fromQueries) @ concat (map snd fromMutations)))"

section \<open>The operation parser\<close>

text \<open>
  The variables of a parsed operation.  \<open>var_description\<close> and \<open>op_description\<close> stand
  for the values \<open>parseNodeDescription\<close> gives.
\<close>

datatype TypeNode = NamedType string | ListType TypeNode | NonNullType TypeNode

datatype OperationTypeNode = QUERY | MUTATION | SUBSCRIPTION

record VariableDefinitionNode =
  var_name :: string
  var_type :: TypeNode
  var_description :: "string option"

record OperationDefinitionNode =
  op_operation :: OperationTypeNode
  op_name :: "string option"
  op_description :: "string option"
  variableDefinitions :: "VariableDefinitionNode list"

fun kind :: "TypeNode \<Rightarrow> string" where
  "kind (NamedType n) = ''NamedType''"
| "kind (ListType t) = ''ListType''"
| "kind (NonNullType t) = ''NonNullType''"

fun convertType :: "TypeNode \<Rightarrow> error + FunctionDefinitionArgument" where
  "convertType (ListType t) =
     (case convertType t of
        Inl e \<Rightarrow> Inl e
      | Inr items \<Rightarrow> Inr (FunctionDefinitionArgument (TypeString ''array'') None None (Some items)))"
| "convertType (NamedType n) = Inr (FunctionDefinitionArgument (scalarKind n) None None None)"
| "convertType (NonNullType t) = Inl (Error (''Unexpected type: '' @ kind (NonNullType t)))"

text \<open>The body of the loop over the declared variables.\<close>

definition convertVariable ::
  "FunctionDefinition \<Rightarrow> VariableDefinitionNode \<Rightarrow> error + FunctionDefinition" where
  "convertVariable functionDef varDef =
     (let argumentName = var_name varDef;
          isRequired = (case var_type varDef of NonNullType _ \<Rightarrow> True | _ \<Rightarrow> False);
          type = (case var_type varDef of NonNullType t \<Rightarrow> t | t \<Rightarrow> t)
      in case convertType type of
           Inl e \<Rightarrow> Inl e
         | Inr argumentDef0 \<Rightarrow>
             (let argumentDef = set_description (var_description varDef) argumentDef0;
                  params1 = (if isRequired
                             then (parameters functionDef)
                                    \<lparr>required := required (parameters functionDef) @ [argumentName]\<rparr>
                             else parameters functionDef);
                  params2 = params1\<lparr>properties :=
                              assignProperty argumentName argumentDef (properties params1)\<rparr>
              in Inr (functionDef\<lparr>parameters := params2\<rparr>)))"

definition convertOperationDefinition :: "OperationDefinitionNode \<Rightarrow> error + FunctionDefinition" where
  "convertOperationDefinition node =
     (if op_operation node \<noteq> QUERY \<and> op_operation node \<noteq> MUTATION then
        Inl (Error (''Do not support subscriptions: '' @
                    (case op_name node of None \<Rightarrow> ''undefined'' | Some n \<Rightarrow> ''[object Object]'')))
      else
        forEach convertVariable (variableDefinitions node)
          \<lparr>fd_name = (case op_name node of None \<Rightarrow> [] | Some n \<Rightarrow> n),
           fd_description = op_description node,
           parameters = \<lparr>params_type = ''object'', properties = [], required = []\<rparr>\<rparr>)"

section \<open>The argument loop of the second variant\<close>

text \<open>
  The second copy of the converter differs in the argument loop of \<open>visit\<close>: it counts
  the arguments and the fields of a flattened input object by index, writes a separator
  before an input-object argument that is not the first, and drops the separator in
  front of the first field of the object.  Its helpers \<open>unwrapRequiredType\<close>,
  \<open>combineArgNameStrings\<close> and \<open>convertToArgument\<close> belong to modules that are not among
  the sources; they are read as \<open>convertRequired\<close>, \<open>combineStrings\<close> and the type mapper
  above.
\<close>

definition visitInputField2 ::
  "GraphQLSchemaConverter \<Rightarrow> VisitContext \<Rightarrow> VisitState \<Rightarrow> nat \<times> GraphQLInputField \<Rightarrow> error + VisitState" where
  "visitInputField2 this ctx st jf =
     (case jf of (j, nestedField) \<Rightarrow>
      let isFirstNestedField = (j = 0);
          unwrappedType = convertRequired (inf_type nestedField) in
      case processField (vs_params st) ctx (vs_numArgs st) unwrappedType
             (combineStrings (prefix ctx) (inf_name nestedField))
             (inf_name nestedField) (inf_description nestedField) of
        Inl e \<Rightarrow> Inl e
      | Inr (processedData, params') \<Rightarrow>
          (let body = (if isFirstNestedField \<and> take 2 (pf_queryBody processedData) = '', ''
                       then drop 2 (pf_queryBody processedData)
                       else pf_queryBody processedData) in
           case printFieldType this nestedField of
             Inl e \<Rightarrow> Inl e
           | Inr typeString \<Rightarrow>
               Inr \<lparr>vs_params = params',
                    vs_numArgs = vs_numArgs st + 1,
                    vs_queryParams = vs_queryParams st @ pf_queryHeader processedData @
                                     pf_argName processedData @ '': '' @ typeString,
                    vs_queryBody = vs_queryBody st @ body\<rparr>))"

definition visitArgument2 ::
  "GraphQLSchemaConverter \<Rightarrow> VisitContext \<Rightarrow> VisitState \<Rightarrow> nat \<times> GraphQLArgument \<Rightarrow> error + VisitState" where
  "visitArgument2 this ctx st ia =
     (case ia of (i, arg) \<Rightarrow>
      let unwrappedType = convertRequired (arg_type arg) in
      case ut_type unwrappedType of
        InInputObject inputType \<Rightarrow>
          (let isFirstArg = (i = 0);
               nestedFields = getInputFields (schema this) inputType in
           case forEach (visitInputField2 this ctx) (enumerate 0 nestedFields)
                  (st\<lparr>vs_queryBody := vs_queryBody st @ (if isFirstArg then [] else '', '') @
                                        arg_name arg @ '': { ''\<rparr>) of
             Inl e \<Rightarrow> Inl e
           | Inr st' \<Rightarrow> Inr (st'\<lparr>vs_queryBody := vs_queryBody st' @ '' }''\<rparr>))
      | _ \<Rightarrow>
          (case processField (vs_params st) ctx (vs_numArgs st) unwrappedType
                  (combineStrings (prefix ctx) (arg_name arg))
                  (arg_name arg) (arg_description arg) of
             Inl e \<Rightarrow> Inl e
           | Inr (processedData, params') \<Rightarrow>
               (case printArgumentType this arg of
                  Inl e \<Rightarrow> Inl e
                | Inr typeString \<Rightarrow>
                    Inr \<lparr>vs_params = params',
                         vs_numArgs = vs_numArgs st + 1,
                         vs_queryParams = vs_queryParams st @ pf_queryHeader processedData @
                                          pf_argName processedData @ '': '' @ typeString,
                         vs_queryBody = vs_queryBody st @ pf_queryBody processedData\<rparr>)))"

definition visitArguments2 ::
  "GraphQLSchemaConverter \<Rightarrow> GraphQLField \<Rightarrow> FunctionDefinitionParameters \<Rightarrow> VisitContext \<Rightarrow>
   error + VisitState" where
  "visitArguments2 this field params ctx =
     (let st0 = \<lparr>vs_params = params, vs_numArgs = 0, vs_queryParams = [],
                 vs_queryBody = field_name field\<rparr>
      in if length (field_args field) > 0 then
           (case forEach (visitArgument2 this ctx) (enumerate 0 (field_args field))
                   (st0\<lparr>vs_queryBody := vs_queryBody st0 @ ''(''\<rparr>) of
              Inl e \<Rightarrow> Inl e
            | Inr st \<Rightarrow> Inr (st\<lparr>vs_queryBody := vs_queryBody st @ '')''\<rparr>))
         else Inr st0)"

section \<open>The traversal with a bound on its nesting\<close>

text \<open>
  \<open>visitWithin depth\<close> is \<open>visit\<close> run with room for \<open>depth\<close> nested calls of \<open>visit\<close>:
  every call of \<open>visit\<close> takes one, the loop over the fields of an object type passes on
  what is left, and \<open>None\<close> says that a further call was needed.
\<close>

fun visitWithin ::
  "nat \<Rightarrow> GraphQLSchemaConverter \<Rightarrow> GraphQLField \<Rightarrow> FunctionDefinitionParameters \<Rightarrow> VisitContext \<Rightarrow>
   (error + (VisitResult \<times> FunctionDefinitionParameters)) option"
and visitFieldsWithin ::
  "nat \<Rightarrow> GraphQLSchemaConverter \<Rightarrow> string \<Rightarrow> VisitContext \<Rightarrow> nat \<Rightarrow> GraphQLField list \<Rightarrow>
   FunctionDefinitionParameters \<times> string \<times> string \<times> bool \<Rightarrow>
   (error + (FunctionDefinitionParameters \<times> string \<times> string \<times> bool)) option"
where
  "visitWithin 0 this field params ctx = None"
| "visitWithin (Suc depth) this field params ctx =
     (let type = unwrapType (field_type field) in
      if isObjectType type \<and> typeName type \<in> set (path ctx) then Some (Inr (aborted, params))
      else if isObjectType type \<and> int (length (path ctx)) + 1 > maxDepth (config this)
      then Some (Inr (aborted, params))
      else
        (case visitArguments this field params ctx of
           Inl e \<Rightarrow> Some (Inl e)
         | Inr st \<Rightarrow>
             if isObjectType type then
               (case visitFieldsWithin depth this (typeName type) ctx (vs_numArgs st)
                       (getFields (schema this) (typeName type))
                       (vs_params st, vs_queryParams st, vs_queryBody st @ '' {\<newline>'', False) of
                  None \<Rightarrow> None
                | Some (Inl e) \<Rightarrow> Some (Inl e)
                | Some (Inr (params', queryParams', queryBody', atLeastOneField)) \<Rightarrow>
                    if \<not> atLeastOneField then
                      Some (Inl (Error (''Expected at least one field on path: '' @ operationName ctx)))
                    else
                      Some (Inr (\<lparr>success = True, queryParams = queryParams',
                                  queryBody = queryBody' @ ''}'' @ ''\<newline>''\<rparr>, params')))
             else
               Some (Inr (\<lparr>success = True, queryParams = vs_queryParams st,
                           queryBody = vs_queryBody st @ ''\<newline>''\<rparr>, vs_params st))))"
| "visitFieldsWithin depth this objectType ctx n [] acc = Some (Inr acc)"
| "visitFieldsWithin depth this objectType ctx n (nestedField # rest) acc =
     (case acc of (params, queryParams0, queryBody0, atLeastOneField) \<Rightarrow>
        (case visitWithin depth this nestedField params
                (nested ctx (field_name nestedField) objectType n) of
           None \<Rightarrow> None
         | Some (Inl e) \<Rightarrow> Some (Inl e)
         | Some (Inr (r, params')) \<Rightarrow>
             visitFieldsWithin depth this objectType ctx n rest
               (params', queryParams0 @ queryParams r, queryBody0 @ queryBody r,
                atLeastOneField \<or> success r)))"

section \<open>Predicates of the statements\<close>

text \<open>The invariant of a parameter schema: every required name is a property.\<close>

definition requiredInProperties :: "FunctionDefinitionParameters \<Rightarrow> bool" where
  "requiredInProperties p = (set (required p) \<subseteq> fst ` set (properties p))"

text \<open>
  What is left of the invariant when a name may be \<open>__proto__\<close>: every required name
  is a property or is \<open>__proto__\<close>.
\<close>

definition requiredInPropertiesOrProto :: "FunctionDefinitionParameters \<Rightarrow> bool" where
  "requiredInPropertiesOrProto p =
     (set (required p) \<subseteq> insert ''__proto__'' (fst ` set (properties p)))"

text \<open>
  The guard of \<open>visit\<close>: an object type that is on the path already, or that would be
  nested deeper than \<open>maxDepth\<close>.
\<close>

definition guarded :: "GraphQLSchemaConverter \<Rightarrow> GraphQLField \<Rightarrow> VisitContext \<Rightarrow> bool" where
  "guarded this field ctx =
     (isObjectType (unwrapType (field_type field)) \<and>
      (typeName (unwrapType (field_type field)) \<in> set (path ctx) \<or>
       int (length (path ctx)) + 1 > maxDepth (config this)))"

text \<open>
  The calls \<open>visit\<close> makes.  The call of \<open>visit\<close> on \<open>parent\<close> makes the call on \<open>child\<close>
  when it expands an object type, the arguments are processed without an error, and
  the loop over the fields has returned for the fields before the \<open>i\<close>-th: the child is
  the \<open>i\<close>-th field, with the parameters as the loop left them and the nested context.
\<close>

definition visitCalls ::
  "GraphQLSchemaConverter \<Rightarrow> GraphQLField \<times> FunctionDefinitionParameters \<times> VisitContext \<Rightarrow>
   GraphQLField \<times> FunctionDefinitionParameters \<times> VisitContext \<Rightarrow> bool" where
  "visitCalls this parent child =
     (case parent of (field, params, ctx) \<Rightarrow>
        let type = unwrapType (field_type field);
            objectType = typeName type;
            nestedFields = getFields (schema this) objectType
        in isObjectType type \<and> \<not> guarded this field ctx \<and>
           (case visitArguments this field params ctx of
              Inl e \<Rightarrow> False
            | Inr st \<Rightarrow>
                (\<exists>i < length nestedFields.
                   case visitFields this objectType ctx (vs_numArgs st) (take i nestedFields)
                          (vs_params st, vs_queryParams st, vs_queryBody st @ '' {\<newline>'', False) of
                     Inl e \<Rightarrow> False
                   | Inr (params', queryParams', queryBody', atLeastOneField) \<Rightarrow>
                       child = (nestedFields ! i, params',
                                nested ctx (field_name (nestedFields ! i)) objectType
                                  (vs_numArgs st)))))"

text \<open>A name matches a context key when the two agree up to the case of their letters.\<close>

definition matchesContextKey :: "string list \<Rightarrow> string \<Rightarrow> bool" where
  "matchesContextKey keys name = (\<exists>key \<in> set keys. toLowerCase key = toLowerCase name)"

section \<open>Worked examples\<close>

text \<open>
  A shop: orders and customers refer to each other, a node refers to itself, a basket
  holds nothing but an order and a holder nothing but a node, a crate holds a label and
  a pair, a pair a number and a node, one query is internal, and the mutation takes an
  input object.  The printer gives the declared type as text.
\<close>

definition mkArg :: "string \<Rightarrow> GraphQLInputType \<Rightarrow> GraphQLArgument" where
  "mkArg n t = \<lparr>arg_name = n, arg_type = t, arg_description = None\<rparr>"

definition mkField :: "string \<Rightarrow> GraphQLArgument list \<Rightarrow> GraphQLOutputType \<Rightarrow> GraphQLField" where
  "mkField n as t = \<lparr>field_name = n, field_description = None, field_args = as, field_type = t\<rparr>"

definition shopSchema :: GraphQLSchema where
  "shopSchema =
     \<lparr>getQueryType = Some ''Query'', getMutationType = Some ''Mutation'',
      getFields = (\<lambda>t.
        if t = ''Query'' then
          [mkField ''orders'' [mkArg ''customerid'' (InNonNull (InScalar ''ID'')),
                               mkArg ''limit'' (InScalar ''Int'')]
             (OutList (OutNonNull (OutObject ''Order''))),
           mkField ''internalStats'' [] (OutScalar ''Int''),
           mkField ''loop'' [] (OutObject ''Node''),
           mkField ''basket'' [] (OutObject ''Basket'')]
        else if t = ''Mutation'' then
          [mkField ''addOrder'' [mkArg ''input'' (InNonNull (InInputObject ''OrderInput''))]
             (OutObject ''Order'')]
        else if t = ''Order'' then
          [mkField ''id'' [] (OutNonNull (OutScalar ''ID'')),
           mkField ''customer'' [] (OutObject ''Customer'')]
        else if t = ''Customer'' then
          [mkField ''name'' [] (OutScalar ''String''),
           mkField ''orders'' [] (OutList (OutObject ''Order''))]
        else if t = ''Node'' then
          [mkField ''next'' [] (OutObject ''Node'')]
        else if t = ''Basket'' then
          [mkField ''order'' [] (OutObject ''Order'')]
        else if t = ''Holder'' then
          [mkField ''node'' [] (OutObject ''Node'')]
        else if t = ''Crate'' then
          [mkField ''label'' [] (OutScalar ''String''),
           mkField ''pair'' [] (OutObject ''Pair'')]
        else if t = ''Pair'' then
          [mkField ''ok'' [] (OutScalar ''Int''),
           mkField ''bad'' [] (OutObject ''Node'')]
        else []),
      getInputFields = (\<lambda>t.
        if t = ''OrderInput'' then
          [\<lparr>inf_name = ''customerid'', inf_type = InNonNull (InScalar ''ID''), inf_description = None\<rparr>,
           \<lparr>inf_name = ''status'', inf_type = InEnum ''Status'' [''OPEN'', ''PAID''], inf_description = None\<rparr>]
        else [])\<rparr>"

definition acceptAll :: APIQueryExecutor where
  "acceptAll =
     \<lparr>ex_validate = (\<lambda>f a. \<lparr>isValid = True, errorMessage = None\<rparr>),
      ex_executeQuery = (\<lambda>q v. Inr ''ok''),
      ex_toString = ''[object Object]''\<rparr>"

definition shopConverter :: GraphQLSchemaConverter where
  "shopConverter =
     \<lparr>schema = shopSchema,
      functionFactory = \<lparr>factory_apiExecutor = acceptAll, factory_contextKeys = [''customerid'']\<rparr>,
      config = \<lparr>operationFilter = (\<lambda>operation name. take 8 (toLowerCase name) \<noteq> ''internal''),
                maxDepth = 3\<rparr>,
      printFieldType = (\<lambda>f. Inr (typeToString (inf_type f))),
      printArgumentType = (\<lambda>a. Inr (typeToString (arg_type a)))\<rparr>"


definition emptyParameters :: FunctionDefinitionParameters where
  "emptyParameters = \<lparr>params_type = ''object'', properties = [], required = []\<rparr>"

definition rootContext :: "string \<Rightarrow> VisitContext" where
  "rootContext name = \<lparr>operationName = name, prefix = [], numArgs = 0, path = []\<rparr>"

definition searchField :: GraphQLField where
  "searchField =
     mkField ''search'' [mkArg ''a'' (InScalar ''Int''), mkArg ''filter'' (InInputObject ''Filter'')]
       (OutScalar ''String'')"

definition rootField :: GraphQLField where
  "rootField = mkField ''root'' [] (OutObject ''R'')"

definition catalogSchema :: GraphQLSchema where
  "catalogSchema =
     \<lparr>getQueryType = Some ''Query'', getMutationType = None,
      getFields = (\<lambda>t.
        if t = ''Query'' then [searchField, rootField]
        else if t = ''R'' then
          [mkField ''f'' [mkArg ''a'' (InScalar ''Int'')] (OutScalar ''Int''),
           mkField ''g'' [mkArg ''b'' (InScalar ''Int'')] (OutScalar ''Int'')]
        else []),
      getInputFields = (\<lambda>t.
        if t = ''Filter'' then
          [\<lparr>inf_name = ''x'', inf_type = InScalar ''Int'', inf_description = None\<rparr>,
           \<lparr>inf_name = ''y'', inf_type = InScalar ''Int'', inf_description = None\<rparr>]
        else [])\<rparr>"

definition catalogConverter :: GraphQLSchemaConverter where
  "catalogConverter = shopConverter\<lparr>schema := catalogSchema\<rparr>"

definition ordersField :: GraphQLField where
  "ordersField =
     mkField ''orders'' [mkArg ''customerid'' (InNonNull (InScalar ''ID'')),
                         mkArg ''limit'' (InScalar ''Int'')]
       (OutList (OutNonNull (OutObject ''Order'')))"

definition loopField :: GraphQLField where
  "loopField = mkField ''loop'' [] (OutObject ''Node'')"

definition basketField :: GraphQLField where
  "basketField = mkField ''basket'' [] (OutObject ''Basket'')"

definition holderField :: GraphQLField where
  "holderField = mkField ''holder'' [] (OutObject ''Holder'')"

definition nodeField :: GraphQLField where
  "nodeField = mkField ''node'' [] (OutObject ''Node'')"

definition nextField :: GraphQLField where
  "nextField = mkField ''next'' [] (OutObject ''Node'')"

definition idField :: GraphQLField where
  "idField = mkField ''id'' [] (OutNonNull (OutScalar ''ID''))"

text \<open>
  A crate holds a label and a pair, and a pair a number and a node: the node is the
  second field of the second field, three object types down.
\<close>

definition crateField :: GraphQLField where
  "crateField = mkField ''crate'' [] (OutObject ''Crate'')"

definition pairField :: GraphQLField where
  "pairField = mkField ''pair'' [] (OutObject ''Pair'')"

definition okField :: GraphQLField where
  "okField = mkField ''ok'' [] (OutScalar ''Int'')"

definition badField :: GraphQLField where
  "badField = mkField ''bad'' [] (OutObject ''Node'')"

definition crateContext :: VisitContext where
  "crateContext = rootContext ''query.crate''"

definition pairContext :: VisitContext where
  "pairContext = nested crateContext ''pair'' ''Crate'' 0"

definition badContext :: VisitContext where
  "badContext = nested pairContext ''bad'' ''Pair'' 0"

definition depthOneConverter :: GraphQLSchemaConverter where
  "depthOneConverter = shopConverter\<lparr>config := (config shopConverter)\<lparr>maxDepth := 1\<rparr>\<rparr>"

definition orderContext :: VisitContext where
  "orderContext = nested (rootContext ''query.orders'') ''id'' ''Order'' 2"

definition nodeContext :: VisitContext where
  "nodeContext = nested (rootContext ''query.loop'') ''next'' ''Node'' 0"

definition highTemps :: OperationDefinitionNode where
  "highTemps =
     \<lparr>op_operation = QUERY, op_name = Some ''HighTemps'', op_description = None,
      variableDefinitions =
        [\<lparr>var_name = ''temp'', var_type = NonNullType (NamedType ''Float''), var_description = None\<rparr>,
         \<lparr>var_name = ''ids'', var_type = ListType (NamedType ''Int''), var_description = None\<rparr>]\<rparr>"

text \<open>
  A schema whose names are all legal in GraphQL and whose flattened argument name is
  \<open>__proto__\<close>: the field \<open>_\<close> of \<open>Thing\<close> takes the argument \<open>proto__\<close>.  And an operation
  whose variable is called \<open>__proto__\<close>.
\<close>

definition underscoreField :: GraphQLField where
  "underscoreField = mkField ''_'' [mkArg ''proto__'' (InNonNull (InScalar ''Int''))] (OutScalar ''Int'')"

definition thingField :: GraphQLField where
  "thingField = mkField ''thing'' [] (OutObject ''Thing'')"

definition underscoreSchema :: GraphQLSchema where
  "underscoreSchema =
     \<lparr>getQueryType = Some ''Query'', getMutationType = None,
      getFields = (\<lambda>t.
        if t = ''Query'' then [thingField]
        else if t = ''Thing'' then [underscoreField]
        else []),
      getInputFields = (\<lambda>t. [])\<rparr>"

definition underscoreConverter :: GraphQLSchemaConverter where
  "underscoreConverter = shopConverter\<lparr>schema := underscoreSchema\<rparr>"

definition protoVariable :: VariableDefinitionNode where
  "protoVariable =
     \<lparr>var_name = ''__proto__'', var_type = NonNullType (NamedType ''Int''), var_description = None\<rparr>"

definition protoQuery :: OperationDefinitionNode where
  "protoQuery =
     \<lparr>op_operation = QUERY, op_name = Some ''Q'', op_description = None,
      variableDefinitions = [protoVariable]\<rparr>"

text \<open>
  An executor that insists on every required parameter and on the variable
  \<open>customerid\<close>, the tool for \<open>orders\<close> bound to it, a context that knows the customer,
  and an executor whose backend is down.  \<open>parseExample\<close> stands for \<open>JSON.parse\<close> on the
  inputs used below.
\<close>

definition strictExecutor :: APIQueryExecutor where
  "strictExecutor =
     \<lparr>ex_validate = (\<lambda>f a.
        case a of
          None \<Rightarrow> \<lparr>isValid = True, errorMessage = None\<rparr>
        | Some argumentsNode \<Rightarrow>
            if list_all (\<lambda>name. argumentsNode name \<noteq> None) (required (parameters f))
            then \<lparr>isValid = True, errorMessage = None\<rparr>
            else \<lparr>isValid = False, errorMessage = Some ''required argument missing''\<rparr>),
      ex_executeQuery = (\<lambda>q variables.
        if variables ''customerid'' = None
        then Inl (Error ''Variable $customerid of required type ID! was not provided.'')
        else Inr ''{orders: []}''),
      ex_toString = ''[object Object]''\<rparr>"

definition ordersTool :: APIFunction where
  "ordersTool =
     \<lparr>func =
        \<lparr>fd_name = ''orders'', fd_description = None,
         parameters =
           \<lparr>params_type = ''object'',
            properties =
              [(''customerid'', FunctionDefinitionArgument (TypeString ''string'') None None None),
               (''limit'', FunctionDefinitionArgument (TypeString ''integer'') None None None)],
            required = [''customerid'']\<rparr>\<rparr>,
      contextKeys = [''customerid''],
      apiQuery = GraphQLQuery ''query orders($customerid: ID!, $limit: Int) { orders { id } }'',
      apiExecutor = strictExecutor\<rparr>"

definition shopContext :: Context where
  "shopContext = [(''CustomerID'', JString ''c42'')]"

definition unreachableExecutor :: APIQueryExecutor where
  "unreachableExecutor =
     strictExecutor\<lparr>ex_executeQuery := (\<lambda>q variables. Inl (Error ''connect ECONNREFUSED''))\<rparr>"

definition parseExample :: "string \<Rightarrow> error + arguments" where
  "parseExample s =
     (if s = ''{}'' then Inr Map.empty
      else if s = ''{\"limit\": 10}'' then Inr [''limit'' \<mapsto> JNumber 10]
      else Inl (Error ''Unexpected token m in JSON at position 1''))"

section \<open>The three ways through \<open>visit\<close>\<close>

declare visit.simps [simp del]

lemma visit_guarded:
  "guarded this field ctx \<Longrightarrow> visit this field params ctx = Inr (aborted, params)"
  by (subst visit.simps) (auto simp: guarded_def Let_def)

lemma visit_leaf:
  "\<not> isObjectType (unwrapType (field_type field)) \<Longrightarrow>
   visit this field params ctx =
     (case visitArguments this field params ctx of
        Inl e \<Rightarrow> Inl e
      | Inr st \<Rightarrow> Inr (\<lparr>success = True, queryParams = vs_queryParams st,
                        queryBody = vs_queryBody st @ ''\<newline>''\<rparr>, vs_params st))"
  by (subst visit.simps) (auto simp: Let_def split: sum.splits)

lemma visit_object:
  "isObjectType (unwrapType (field_type field)) \<Longrightarrow> \<not> guarded this field ctx \<Longrightarrow>
   visit this field params ctx =
     (case visitArguments this field params ctx of
        Inl e \<Rightarrow> Inl e
      | Inr st \<Rightarrow>
          (case visitFields this (typeName (unwrapType (field_type field))) ctx (vs_numArgs st)
                  (getFields (schema this) (typeName (unwrapType (field_type field))))
                  (vs_params st, vs_queryParams st, vs_queryBody st @ '' {\<newline>'', False) of
             Inl e \<Rightarrow> Inl e
           | Inr (params', queryParams', queryBody', atLeastOneField) \<Rightarrow>
               if \<not> atLeastOneField then
                 Inl (Error (''Expected at least one field on path: '' @ operationName ctx))
               else
                 Inr (\<lparr>success = True, queryParams = queryParams',
                       queryBody = queryBody' @ ''}'' @ ''\<newline>''\<rparr>, params')))"
  by (subst visit.simps) (auto simp: guarded_def Let_def split: sum.splits)

section \<open>Properties of the type mapper\<close>

text \<open>
  C8 at its failing input, with the cases that hold.  \<open>convertToArgument\<close> maps a scalar
  to the kind the table lists for its name, and a scalar whose name is neither in the
  table nor a member of \<open>Object.prototype\<close>, such as \<open>DateTime\<close>, to \<open>string\<close>.  For a
  scalar called like a member of \<open>Object.prototype\<close> the lookup gives that member, so the
  scalar \<open>constructor\<close> gets a function for its type and not \<open>string\<close>.  An enum is
  mapped to \<open>string\<close> with the set of its declared value names, a list to an \<open>array\<close>
  whose \<open>items\<close> is the mapping of the element type with one non-null wrapper removed
  (an error of the element is passed on), and an input-object type throws
  \<open>Unsupported type: <name>\<close>.
\<close>

theorem convertToArgument_cases:
  "convertToArgument (InScalar n) =
     Inr (FunctionDefinitionArgument
            (case map_of scalarTypeMap n of
               Some k \<Rightarrow> TypeString k
             | None \<Rightarrow> if n \<in> set objectPrototypeMembers then InheritedMember n
                       else TypeString ''string'')
            None None None)
   \<and> convertToArgument (InScalar ''DateTime'')
       = Inr (FunctionDefinitionArgument (TypeString ''string'') None None None)
   \<and> convertToArgument (InScalar ''constructor'')
       = Inr (FunctionDefinitionArgument (InheritedMember ''constructor'') None None None)
   \<and> convertToArgument (InScalar ''constructor'')
       \<noteq> Inr (FunctionDefinitionArgument (TypeString ''string'') None None None)
   \<and> convertToArgument (InEnum n vs) =
     Inr (FunctionDefinitionArgument (TypeString ''string'') None (Some (set vs)) None)
   \<and> convertToArgument (InList t) =
     (case convertToArgument (case t of InNonNull u \<Rightarrow> u | _ \<Rightarrow> t) of
        Inl e \<Rightarrow> Inl e
      | Inr items \<Rightarrow> Inr (FunctionDefinitionArgument (TypeString ''array'') None None (Some items)))
   \<and> convertToArgument (InInputObject n) = Inl (Error (''Unsupported type: '' @ n))"
proof -
  have scalar: "scalarKind n =
      (case map_of scalarTypeMap n of
         Some k \<Rightarrow> TypeString k
       | None \<Rightarrow> if n \<in> set objectPrototypeMembers then InheritedMember n
                 else TypeString ''string'')"
    by (auto simp: scalarKind_def scalarTypeMap_def defaultScalarType_def)
  have fallback: "scalarKind ''DateTime'' = TypeString ''string''"
    by (simp add: scalarKind_def scalarTypeMap_def defaultScalarType_def objectPrototypeMembers_def)
  have inherited: "scalarKind ''constructor'' = InheritedMember ''constructor''"
    by (simp add: scalarKind_def scalarTypeMap_def objectPrototypeMembers_def)
  have strip: "ut_type (convertRequired t) = (case t of InNonNull u \<Rightarrow> u | _ \<Rightarrow> t)"
    by (cases t) (simp_all add: convertRequired_def)
  show ?thesis
    by (simp add: scalar fallback inherited strip)
qed

section \<open>Required names and properties\<close>

lemma forEach_preserves:
  assumes step: "\<And>s x s'. body s x = Inr s' \<Longrightarrow> P s \<Longrightarrow> P s'"
  shows "forEach body xs s = Inr s' \<Longrightarrow> P s \<Longrightarrow> P s'"
proof (induction xs arbitrary: s)
  case Nil
  then show ?case by simp
next
  case (Cons x xs)
  then show ?case
    by (auto split: sum.splits dest: step)
qed

lemma processField_ok:
  assumes "processField params ctx n ut argName originalName d = Inr (r, params')"
    and "requiredInPropertiesOrProto params"
  shows "requiredInPropertiesOrProto params'"
  using assms
  by (auto simp: processField_def requiredInPropertiesOrProto_def assignProperty_def Let_def dom_update split: sum.splits if_splits)

lemma visitInputField_ok:
  assumes "visitInputField this ctx st nf = Inr st'" and "requiredInPropertiesOrProto (vs_params st)"
  shows "requiredInPropertiesOrProto (vs_params st')"
proof -
  from assms(1) obtain pd where
    "processField (vs_params st) ctx (vs_numArgs st) (convertRequired (inf_type nf))
       (combineStrings (prefix ctx) (inf_name nf)) (inf_name nf) (inf_description nf)
     = Inr (pd, vs_params st')"
    by (auto simp: visitInputField_def Let_def split: sum.splits)
  then show ?thesis
    using assms(2) by (rule processField_ok)
qed

lemma visitArgument_ok:
  assumes "visitArgument this ctx st arg = Inr st'" and "requiredInPropertiesOrProto (vs_params st)"
  shows "requiredInPropertiesOrProto (vs_params st')"
proof (cases "\<exists>inputType. ut_type (convertRequired (arg_type arg)) = InInputObject inputType")
  case True
  then obtain inputType where
    "ut_type (convertRequired (arg_type arg)) = InInputObject inputType" ..
  with assms(1) obtain st1 where
    loop: "forEach (visitInputField this ctx) (getInputFields (schema this) inputType)
             (st\<lparr>vs_queryBody := vs_queryBody st @ arg_name arg @ '': { ''\<rparr>) = Inr st1"
    and st': "st' = st1\<lparr>vs_queryBody := vs_queryBody st1 @ '' }''\<rparr>"
    by (auto simp: visitArgument_def Let_def split: sum.splits)
  have "requiredInPropertiesOrProto (vs_params st1)"
    by (rule forEach_preserves[where P = "\<lambda>s. requiredInPropertiesOrProto (vs_params s)", OF _ loop])
       (auto intro: visitInputField_ok simp: assms(2))
  then show ?thesis by (simp add: st')
next
  case False
  with assms(1) obtain pd where
    "processField (vs_params st) ctx (vs_numArgs st) (convertRequired (arg_type arg))
       (combineStrings (prefix ctx) (arg_name arg)) (arg_name arg) (arg_description arg)
     = Inr (pd, vs_params st')"
    by (auto simp: visitArgument_def Let_def split: sum.splits GraphQLInputType.splits)
  then show ?thesis
    using assms(2) by (rule processField_ok)
qed

lemma visitArguments_ok:
  assumes "visitArguments this field params ctx = Inr st" and "requiredInPropertiesOrProto params"
  shows "requiredInPropertiesOrProto (vs_params st)"
proof (cases "length (field_args field) > 0")
  case True
  with assms obtain st1 where
    loop: "forEach (visitArgument this ctx) (field_args field)
             \<lparr>vs_params = params, vs_numArgs = 0, vs_queryParams = [],
              vs_queryBody = field_name field @ ''(''\<rparr> = Inr st1"
    and st: "st = st1\<lparr>vs_queryBody := vs_queryBody st1 @ '')''\<rparr>"
    by (auto simp: visitArguments_def Let_def split: sum.splits)
  have "requiredInPropertiesOrProto (vs_params st1)"
    by (rule forEach_preserves[where P = "\<lambda>s. requiredInPropertiesOrProto (vs_params s)", OF _ loop])
       (auto intro: visitArgument_ok simp: assms(2))
  then show ?thesis by (simp add: st)
next
  case False
  with assms show ?thesis by (auto simp: visitArguments_def Let_def)
qed


lemma visit_ok_both:
  "visit this field params ctx = Inr (r, params') \<Longrightarrow> requiredInPropertiesOrProto params \<Longrightarrow> requiredInPropertiesOrProto params'"
  "visitFields this objectType ctx n rest acc = Inr acc' \<Longrightarrow>
      requiredInPropertiesOrProto (fst acc) \<Longrightarrow> requiredInPropertiesOrProto (fst acc')"
proof (induction this field params ctx and this objectType ctx n rest acc
       arbitrary: r params' and acc'
       rule: visit_visitFields.induct)
  case (1 this field params ctx)
  let ?type = "unwrapType (field_type field)"
  show ?case
  proof (cases "guarded this field ctx")
    case True
    with "1.prems" show ?thesis by (simp add: visit_guarded)
  next
    case guard: False
    show ?thesis
    proof (cases "isObjectType ?type")
      case False
      with "1.prems" show ?thesis
        by (auto simp: visit_leaf split: sum.splits intro: visitArguments_ok)
    next
      case True
      with "1.prems"(1) guard obtain st acc' where
        args: "visitArguments this field params ctx = Inr st" and
        loop: "visitFields this (typeName ?type) ctx (vs_numArgs st)
                 (getFields (schema this) (typeName ?type))
                 (vs_params st, vs_queryParams st, vs_queryBody st @ '' {\<newline>'', False) = Inr acc'"
        and p': "params' = fst acc'"
        by (auto simp: visit_object split: sum.splits if_splits)
      have st_ok: "requiredInPropertiesOrProto (vs_params st)"
        using args "1.prems"(2) by (rule visitArguments_ok)
      from guard True have g1: "\<not> (isObjectType ?type \<and> typeName ?type \<in> set (path ctx))"
        and g2: "\<not> (isObjectType ?type \<and> int (length (path ctx)) + 1 > maxDepth (config this))"
        by (auto simp: guarded_def)
      have "requiredInPropertiesOrProto (fst acc')"
        using "1.IH"[OF refl g1 g2 args True loop] st_ok by simp
      then show ?thesis by (simp add: p')
    qed
  qed
next
  case (2 this objectType ctx n acc)
  then show ?case by auto
next
  case (3 this objectType ctx n nestedField rest acc)
  obtain params qp0 qb0 b0 where acc: "acc = (params, qp0, qb0, b0)"
    by (cases acc) auto
  from "3.prems"(1) acc obtain r p1 where
    v: "visit this nestedField params (nested ctx (field_name nestedField) objectType n) = Inr (r, p1)"
    and rest: "visitFields this objectType ctx n rest
                 (p1, qp0 @ queryParams r, qb0 @ queryBody r, b0 \<or> success r) = Inr acc'"
    by (auto split: sum.splits)
  have "requiredInPropertiesOrProto p1"
    using "3.IH"(1)[OF acc[symmetric] refl refl v] "3.prems"(2) acc by simp
  then show ?case
    using "3.IH"(2)[OF acc[symmetric] refl refl v refl rest] by simp
qed


lemma visit_ok: "visit this field params ctx = Inr (r, params') \<Longrightarrow> requiredInPropertiesOrProto params \<Longrightarrow> requiredInPropertiesOrProto params'"
  by (rule visit_ok_both(1))

lemma create_func: "create factory functionDef q = Inr t \<Longrightarrow> func t = functionDef"
  by (auto simp: create_def APIFunction_new_def Let_def split: if_splits)

lemma convertToApiFunction_ok:
  assumes "convertToApiFunction this operationType field = Inr t"
  shows "requiredInPropertiesOrProto (parameters (func t))"
proof -
  let ?def = "initializeFunctionDefinition (field_name field) (field_description field)"
  from assms obtain r params' where
    v: "visit this field (parameters ?def)
          \<lparr>operationName = toLowerCase operationType @ ''.'' @ field_name field,
           prefix = [], numArgs = 0, path = []\<rparr> = Inr (r, params')"
    and c: "create (functionFactory this) (?def\<lparr>parameters := params'\<rparr>)
              (GraphQLQuery (toLowerCase operationType @ '' '' @ field_name field @ ''('' @
                 queryParams r @ '') {\<newline>'' @ queryBody r @ ''\<newline>}'')) = Inr t"
    by (auto simp: convertToApiFunction_def Let_def split: sum.splits)
  have "requiredInPropertiesOrProto (parameters ?def)"
    by (simp add: initializeFunctionDefinition_def requiredInPropertiesOrProto_def)
  with v have "requiredInPropertiesOrProto params'" by (rule visit_ok)
  with create_func[OF c] show ?thesis by simp
qed

lemma createApiFunction_ok:
  "fst (createApiFunctionFromGraphQLOperation this operationName' field) = Some t \<Longrightarrow>
   requiredInPropertiesOrProto (parameters (func t))"
  by (auto simp: createApiFunctionFromGraphQLOperation_def split: if_splits sum.splits
           dest: convertToApiFunction_ok)

lemma convertSchema_ok:
  assumes "t \<in> set (fst (convertSchema this))"
  shows "requiredInPropertiesOrProto (parameters (func t))"
proof -
  from assms obtain operationName' field where
    "fst (createApiFunctionFromGraphQLOperation this operationName' field) = Some t"
    by (auto simp: convertSchema_def Let_def)
  then show ?thesis by (rule createApiFunction_ok)
qed

lemma convertVariable_ok:
  assumes "convertVariable functionDef varDef = Inr functionDef'"
    and "requiredInPropertiesOrProto (parameters functionDef)"
  shows "requiredInPropertiesOrProto (parameters functionDef')"
  using assms
  by (auto simp: convertVariable_def requiredInPropertiesOrProto_def assignProperty_def Let_def dom_update split: sum.splits if_splits)

lemma convertOperationDefinition_ok:
  assumes "convertOperationDefinition node = Inr functionDef"
  shows "requiredInPropertiesOrProto (parameters functionDef)"
proof -
  from assms have loop: "forEach convertVariable (variableDefinitions node)
          \<lparr>fd_name = (case op_name node of None \<Rightarrow> [] | Some n \<Rightarrow> n),
           fd_description = op_description node,
           parameters = \<lparr>params_type = ''object'', properties = [], required = []\<rparr>\<rparr> = Inr functionDef"
    by (auto simp: convertOperationDefinition_def split: if_splits)
  have init: "requiredInPropertiesOrProto (parameters
          \<lparr>fd_name = (case op_name node of None \<Rightarrow> [] | Some n \<Rightarrow> n),
           fd_description = op_description node,
           parameters = \<lparr>params_type = ''object'', properties = [], required = []\<rparr>\<rparr>)"
    by (simp add: requiredInPropertiesOrProto_def)
  show ?thesis
    by (rule forEach_preserves[where P = "\<lambda>d. requiredInPropertiesOrProto (parameters d)",
                               OF convertVariable_ok loop init])
qed

lemma processField_strict:
  assumes "processField params ctx n ut argName originalName d = Inr (r, params')"
    and "argName \<noteq> ''__proto__''" and "requiredInProperties params"
  shows "requiredInProperties params'"
  using assms
  by (auto simp: processField_def requiredInProperties_def assignProperty_def Let_def dom_update
           split: sum.splits if_splits)

lemma convertVariable_strict:
  assumes "convertVariable functionDef varDef = Inr functionDef'"
    and "var_name varDef \<noteq> ''__proto__''" and "requiredInProperties (parameters functionDef)"
  shows "requiredInProperties (parameters functionDef')"
  using assms
  by (auto simp: convertVariable_def requiredInProperties_def assignProperty_def Let_def dom_update
           split: sum.splits if_splits)

text \<open>
  C1 at its failing inputs, with what holds in its place.  A required name is pushed onto
  \<open>required\<close> whatever it is, and the assignment to \<open>properties\<close> adds no key when the name
  is \<open>__proto__\<close>.  So the tool of the field \<open>thing\<close>, whose nested field \<open>_\<close> takes the
  required argument \<open>proto__\<close>, and the definition of the operation
  \<open>query Q($__proto__: Int!)\<close> both require \<open>__proto__\<close> and have no property at all.
  For any other name \<open>processField\<close> and \<open>convertVariable\<close> keep every required name a
  key of \<open>properties\<close>; and with any names, after each argument, in every tool
  \<open>convertSchema\<close> returns and in every definition the operation parser returns, every
  required name is a key of \<open>properties\<close> or is \<open>__proto__\<close>.
\<close>

theorem required_subset_of_properties:
  "(argName \<noteq> ''__proto__'' \<longrightarrow> requiredInProperties params \<longrightarrow>
      processField params ctx n unwrappedType argName originalName description = Inr (processed, params') \<longrightarrow>
      requiredInProperties params')
   \<and> (requiredInPropertiesOrProto params \<longrightarrow>
      processField params ctx n unwrappedType argName originalName description = Inr (processed, params') \<longrightarrow>
      requiredInPropertiesOrProto params')
   \<and> (requiredInPropertiesOrProto params \<longrightarrow> visit this field params ctx = Inr (r, params'') \<longrightarrow>
        requiredInPropertiesOrProto params'')
   \<and> (\<forall>t \<in> set (fst (convertSchema this)). requiredInPropertiesOrProto (parameters (func t)))
   \<and> (var_name varDef \<noteq> ''__proto__'' \<longrightarrow> requiredInProperties (parameters functionDef) \<longrightarrow>
        convertVariable functionDef varDef = Inr functionDef' \<longrightarrow>
        requiredInProperties (parameters functionDef'))
   \<and> (requiredInPropertiesOrProto (parameters functionDef) \<longrightarrow>
        convertVariable functionDef varDef = Inr functionDef' \<longrightarrow>
        requiredInPropertiesOrProto (parameters functionDef'))
   \<and> (convertOperationDefinition node = Inr functionDef'' \<longrightarrow>
        requiredInPropertiesOrProto (parameters functionDef''))
   \<and> map (\<lambda>t. (getName t, required (parameters (func t)), properties (parameters (func t))))
          (fst (convertSchema underscoreConverter))
       = [(''thing'', [''__proto__''], [])]
   \<and> list_all (\<lambda>t. \<not> requiredInProperties (parameters (func t)))
          (fst (convertSchema underscoreConverter))
   \<and> convertOperationDefinition protoQuery
       = Inr \<lparr>fd_name = ''Q'', fd_description = None,
              parameters = \<lparr>params_type = ''object'', properties = [], required = [''__proto__'']\<rparr>\<rparr>
   \<and> (case convertOperationDefinition protoQuery of
         Inl e \<Rightarrow> False
       | Inr functionDef \<Rightarrow> \<not> requiredInProperties (parameters functionDef))"
proof (intro conjI impI ballI)
  assume "argName \<noteq> ''__proto__''" and "requiredInProperties params"
    and "processField params ctx n unwrappedType argName originalName description = Inr (processed, params')"
  then show "requiredInProperties params'" by (rule processField_strict[rotated])
next
  assume "requiredInPropertiesOrProto params"
    and "processField params ctx n unwrappedType argName originalName description = Inr (processed, params')"
  then show "requiredInPropertiesOrProto params'" by (rule processField_ok[rotated])
next
  assume "requiredInPropertiesOrProto params" and "visit this field params ctx = Inr (r, params'')"
  then show "requiredInPropertiesOrProto params''" by (rule visit_ok[rotated])
next
  fix t assume "t \<in> set (fst (convertSchema this))"
  then show "requiredInPropertiesOrProto (parameters (func t))" by (rule convertSchema_ok)
next
  assume "var_name varDef \<noteq> ''__proto__''" and "requiredInProperties (parameters functionDef)"
    and "convertVariable functionDef varDef = Inr functionDef'"
  then show "requiredInProperties (parameters functionDef')" by (rule convertVariable_strict[rotated])
next
  assume "requiredInPropertiesOrProto (parameters functionDef)"
    and "convertVariable functionDef varDef = Inr functionDef'"
  then show "requiredInPropertiesOrProto (parameters functionDef')" by (rule convertVariable_ok[rotated])
next
  assume "convertOperationDefinition node = Inr functionDef''"
  then show "requiredInPropertiesOrProto (parameters functionDef'')" by (rule convertOperationDefinition_ok)
next
  show "map (\<lambda>t. (getName t, required (parameters (func t)), properties (parameters (func t))))
          (fst (convertSchema underscoreConverter))
       = [(''thing'', [''__proto__''], [])]"
    by code_simp
next
  show "list_all (\<lambda>t. \<not> requiredInProperties (parameters (func t)))
          (fst (convertSchema underscoreConverter))"
    by code_simp
next
  show "convertOperationDefinition protoQuery
       = Inr \<lparr>fd_name = ''Q'', fd_description = None,
              parameters = \<lparr>params_type = ''object'', properties = [], required = [''__proto__'']\<rparr>\<rparr>"
    by code_simp
next
  show "case convertOperationDefinition protoQuery of
         Inl e \<Rightarrow> False
       | Inr functionDef \<Rightarrow> \<not> requiredInProperties (parameters functionDef)"
    by code_simp
qed

theorem required_subset_of_properties_witness:
  "(\<exists>processed params'.
      processField emptyParameters (rootContext ''query.orders'') 0
        (convertRequired (InNonNull (InScalar ''ID''))) ''customerid'' ''customerid'' None
        = Inr (processed, params')
      \<and> required params' = [''customerid''] \<and> requiredInProperties params'
      \<and> requiredInPropertiesOrProto params')
   \<and> (\<exists>r params'.
      visit shopConverter ordersField emptyParameters (rootContext ''query.orders'') = Inr (r, params')
      \<and> required params' = [''customerid''] \<and> requiredInPropertiesOrProto params')
   \<and> map getName (fst (convertSchema shopConverter)) = [''orders'', ''basket'', ''addOrder'']
   \<and> list_all (\<lambda>t. requiredInPropertiesOrProto (parameters (func t))) (fst (convertSchema shopConverter))
   \<and> (\<exists>functionDef'.
      convertVariable \<lparr>fd_name = ''HighTemps'', fd_description = None, parameters = emptyParameters\<rparr>
        \<lparr>var_name = ''temp'', var_type = NonNullType (NamedType ''Float''), var_description = None\<rparr>
        = Inr functionDef'
      \<and> required (parameters functionDef') = [''temp''] \<and> requiredInProperties (parameters functionDef')
      \<and> requiredInPropertiesOrProto (parameters functionDef'))
   \<and> (\<exists>functionDef.
      convertOperationDefinition highTemps = Inr functionDef
      \<and> required (parameters functionDef) = [''temp'']
      \<and> requiredInPropertiesOrProto (parameters functionDef))"
proof -
  note main = required_subset_of_properties
    [where params = emptyParameters and this = shopConverter and node = highTemps]
  have e: "requiredInProperties emptyParameters"
    by (simp add: requiredInProperties_def emptyParameters_def)
  have e': "requiredInPropertiesOrProto emptyParameters"
    by (simp add: requiredInPropertiesOrProto_def emptyParameters_def)
  have n: "''customerid'' \<noteq> ''__proto__''" by simp
  have "case processField emptyParameters (rootContext ''query.orders'') 0
        (convertRequired (InNonNull (InScalar ''ID''))) ''customerid'' ''customerid'' None of
          Inl _ \<Rightarrow> False | Inr (processed, params') \<Rightarrow> required params' = [''customerid'']"
    by code_simp
  then obtain processed p1 where
    a1: "processField emptyParameters (rootContext ''query.orders'') 0
        (convertRequired (InNonNull (InScalar ''ID''))) ''customerid'' ''customerid'' None
        = Inr (processed, p1)" and a2: "required p1 = [''customerid'']"
    by (auto split: sum.splits)
  from main[THEN conjunct1, THEN mp, THEN mp, THEN mp, OF n e a1]
  have a3: "requiredInProperties p1" .
  from main[THEN conjunct2, THEN conjunct1, THEN mp, THEN mp, OF e' a1]
  have a4: "requiredInPropertiesOrProto p1" .
  have "case visit shopConverter ordersField emptyParameters (rootContext ''query.orders'') of
          Inl _ \<Rightarrow> False | Inr (r, params') \<Rightarrow> required params' = [''customerid'']"
    by code_simp
  then obtain r p2 where
    b1: "visit shopConverter ordersField emptyParameters (rootContext ''query.orders'') = Inr (r, p2)"
    and b2: "required p2 = [''customerid'']"
    by (auto split: sum.splits)
  from main[THEN conjunct2, THEN conjunct2, THEN conjunct1, THEN mp, THEN mp, OF e' b1]
  have b3: "requiredInPropertiesOrProto p2" .
  have c1: "map getName (fst (convertSchema shopConverter)) = [''orders'', ''basket'', ''addOrder'']"
    by code_simp
  have c2: "list_all (\<lambda>t. requiredInPropertiesOrProto (parameters (func t))) (fst (convertSchema shopConverter))"
    using main[THEN conjunct2, THEN conjunct2, THEN conjunct2, THEN conjunct1]
    by (simp add: list_all_iff)
  let ?d0 = "\<lparr>fd_name = ''HighTemps'', fd_description = None, parameters = emptyParameters\<rparr>"
  let ?v = "\<lparr>var_name = ''temp'', var_type = NonNullType (NamedType ''Float''), var_description = None\<rparr>"
  have "case convertVariable ?d0 ?v of
          Inl _ \<Rightarrow> False | Inr d \<Rightarrow> required (parameters d) = [''temp'']"
    by code_simp
  then obtain d1 where d1: "convertVariable ?d0 ?v = Inr d1" and d2: "required (parameters d1) = [''temp'']"
    by (auto split: sum.splits)
  have vn: "var_name ?v \<noteq> ''__proto__''" by simp
  have d0: "requiredInProperties (parameters ?d0)" using e by simp
  have d0': "requiredInPropertiesOrProto (parameters ?d0)" using e' by simp
  note rest = main[THEN conjunct2, THEN conjunct2, THEN conjunct2, THEN conjunct2]
  from rest[THEN conjunct1, THEN mp, THEN mp, THEN mp, OF vn d0 d1]
  have d3: "requiredInProperties (parameters d1)" .
  from rest[THEN conjunct2, THEN conjunct1, THEN mp, THEN mp, OF d0' d1]
  have d4: "requiredInPropertiesOrProto (parameters d1)" .
  have "case convertOperationDefinition highTemps of
          Inl _ \<Rightarrow> False | Inr d \<Rightarrow> required (parameters d) = [''temp'']"
    by code_simp
  then obtain fd where f1: "convertOperationDefinition highTemps = Inr fd"
    and f2: "required (parameters fd) = [''temp'']"
    by (auto split: sum.splits)
  from rest[THEN conjunct2, THEN conjunct2, THEN conjunct1, THEN mp, OF f1]
  have f3: "requiredInPropertiesOrProto (parameters fd)" .
  show ?thesis
    using a1 a2 a3 a4 b1 b2 b3 c1 c2 d1 d2 d3 d4 f1 f2 f3 by blast
qed

section \<open>Termination of the traversal\<close>

lemma visitWithin_both:
  "1 \<le> d \<Longrightarrow> maxDepth (config this) - int (length (path ctx)) < int d \<Longrightarrow>
     visitWithin d this field params ctx = Some (visit this field params ctx)"
  "1 \<le> d \<Longrightarrow> maxDepth (config this) - int (length (path ctx)) - 1 < int d \<Longrightarrow>
     visitFieldsWithin d this objectType ctx n rest acc = Some (visitFields this objectType ctx n rest acc)"
proof (induction this field params ctx and this objectType ctx n rest acc
       arbitrary: d and d
       rule: visit_visitFields.induct)
  case (1 this field params ctx)
  let ?type = "unwrapType (field_type field)"
  from "1.prems" obtain d' where d: "d = Suc d'" by (cases d) auto
  show ?case
  proof (cases "guarded this field ctx")
    case True
    then show ?thesis by (auto simp: d visit_guarded guarded_def Let_def)
  next
    case guard: False
    show ?thesis
    proof (cases "isObjectType ?type")
      case False
      then show ?thesis
        by (auto simp: d visit_leaf Let_def split: sum.splits)
    next
      case True
      from guard True have g1: "\<not> (isObjectType ?type \<and> typeName ?type \<in> set (path ctx))"
        and g2: "\<not> (isObjectType ?type \<and> int (length (path ctx)) + 1 > maxDepth (config this))"
        by (auto simp: guarded_def)
      from g2 True "1.prems" d have d'1: "1 \<le> d'"
        and d'2: "maxDepth (config this) - int (length (path ctx)) - 1 < int d'"
        by auto
      show ?thesis
      proof (cases "visitArguments this field params ctx")
        case (Inl e)
        with guard True g1 g2 show ?thesis
          by (auto simp: d visit_object Let_def)
      next
        case (Inr st)
        have "visitFieldsWithin d' this (typeName ?type) ctx (vs_numArgs st)
                 (getFields (schema this) (typeName ?type))
                 (vs_params st, vs_queryParams st, vs_queryBody st @ '' {\<newline>'', False) =
              Some (visitFields this (typeName ?type) ctx (vs_numArgs st)
                 (getFields (schema this) (typeName ?type))
                 (vs_params st, vs_queryParams st, vs_queryBody st @ '' {\<newline>'', False))"
          by (rule "1.IH"[OF refl g1 g2 Inr True d'1 d'2])
        with Inr guard True g1 g2 show ?thesis
          by (auto simp: d visit_object Let_def split: sum.splits)
      qed
    qed
  qed
next
  case (2 this objectType ctx n acc)
  then show ?case by simp
next
  case (3 this objectType ctx n nestedField rest acc)
  obtain params qp0 qb0 b0 where acc: "acc = (params, qp0, qb0, b0)"
    by (cases acc) auto
  let ?c = "nested ctx (field_name nestedField) objectType n"
  have len: "int (length (path ?c)) = int (length (path ctx)) + 1"
    by (simp add: nested_def)
  have v: "visitWithin d this nestedField params ?c = Some (visit this nestedField params ?c)"
    using "3.IH"(1)[OF acc[symmetric] refl refl "3.prems"(1)] "3.prems"(2) len by simp
  show ?case
  proof (cases "visit this nestedField params ?c")
    case (Inl e)
    with v acc show ?thesis by simp
  next
    case (Inr res)
    obtain r p1 where res: "res = (r, p1)" by (cases res) auto
    have "visitFieldsWithin d this objectType ctx n rest
            (p1, qp0 @ queryParams r, qb0 @ queryBody r, b0 \<or> success r) =
          Some (visitFields this objectType ctx n rest
            (p1, qp0 @ queryParams r, qb0 @ queryBody r, b0 \<or> success r))"
      using "3.IH"(2)[OF acc[symmetric] refl refl Inr[unfolded res] refl "3.prems"] .
    with v acc Inr res show ?thesis by simp
  qed
qed


text \<open>
  C2, as amended.  For every schema, cyclic or not, \<open>visit\<close> returns.  When the unwrapped
  return type of the field is an object type that is on the path already, or is an object
  type and the length of the path plus one exceeds \<open>maxDepth\<close>, it returns
  \<open>success = false\<close> with both texts empty and the parameters untouched, and does so
  without a nested call.  A field whose unwrapped return type is not an object type is
  cut by neither test and makes no nested call: it returns \<open>success = true\<close> with its own
  text, or throws what its arguments throw.  Any other field makes its nested calls
  from the loop over the fields of its object type, each with the nested context, which
  holds the path with that object type added.  So a call returns within any number of
  nested calls that is at least one and exceeds \<open>maxDepth\<close> less the length of its path,
  and a traversal from the empty path within \<open>maxDepth + 1\<close>, or one if \<open>maxDepth\<close> is
  negative.
\<close>

theorem visit_depth_bounded:
  "(isObjectType (unwrapType (field_type field)) \<longrightarrow>
      (typeName (unwrapType (field_type field)) \<in> set (path ctx)
       \<or> maxDepth (config this) < int (length (path ctx)) + 1) \<longrightarrow>
      visit this field params ctx = Inr (\<lparr>success = False, queryParams = [], queryBody = []\<rparr>, params)
      \<and> visitWithin 1 this field params ctx = Some (visit this field params ctx))
   \<and> (\<not> isObjectType (unwrapType (field_type field)) \<longrightarrow>
        visit this field params ctx =
          (case visitArguments this field params ctx of
             Inl e \<Rightarrow> Inl e
           | Inr st \<Rightarrow> Inr (\<lparr>success = True, queryParams = vs_queryParams st,
                             queryBody = vs_queryBody st @ ''\<newline>''\<rparr>, vs_params st))
        \<and> visitWithin 1 this field params ctx = Some (visit this field params ctx))
   \<and> (isObjectType (unwrapType (field_type field)) \<longrightarrow>
        \<not> (typeName (unwrapType (field_type field)) \<in> set (path ctx)
           \<or> maxDepth (config this) < int (length (path ctx)) + 1) \<longrightarrow>
        visit this field params ctx =
          (case visitArguments this field params ctx of
             Inl e \<Rightarrow> Inl e
           | Inr st \<Rightarrow>
               (case visitFields this (typeName (unwrapType (field_type field))) ctx (vs_numArgs st)
                       (getFields (schema this) (typeName (unwrapType (field_type field))))
                       (vs_params st, vs_queryParams st, vs_queryBody st @ '' {\<newline>'', False) of
                  Inl e \<Rightarrow> Inl e
                | Inr (params', queryParams', queryBody', atLeastOneField) \<Rightarrow>
                    if \<not> atLeastOneField then
                      Inl (Error (''Expected at least one field on path: '' @ operationName ctx))
                    else
                      Inr (\<lparr>success = True, queryParams = queryParams',
                            queryBody = queryBody' @ ''}'' @ ''\<newline>''\<rparr>, params'))))
   \<and> visitFields this objectType ctx n [] acc = Inr acc
   \<and> visitFields this objectType ctx n (nestedField # rest) (params, qp, qb, b) =
        (case visit this nestedField params (nested ctx (field_name nestedField) objectType n) of
           Inl e \<Rightarrow> Inl e
         | Inr (r, params') \<Rightarrow>
             visitFields this objectType ctx n rest
               (params', qp @ queryParams r, qb @ queryBody r, b \<or> success r))
   \<and> path (nested ctx fieldName objectType additionalArgs) = path ctx @ [objectType]
   \<and> (1 \<le> depth \<longrightarrow> maxDepth (config this) - int (length (path ctx)) < int depth \<longrightarrow>
        visitWithin depth this field params ctx = Some (visit this field params ctx))
   \<and> visitWithin (nat (maxDepth (config this)) + 1) this field params
        \<lparr>operationName = name, prefix = [], numArgs = 0, path = []\<rparr>
      = Some (visit this field params \<lparr>operationName = name, prefix = [], numArgs = 0, path = []\<rparr>)"
proof (intro conjI impI)
  assume "isObjectType (unwrapType (field_type field))"
    and "typeName (unwrapType (field_type field)) \<in> set (path ctx)
       \<or> maxDepth (config this) < int (length (path ctx)) + 1"
  then have g: "guarded this field ctx"
    by (simp add: guarded_def)
  then show "visit this field params ctx = Inr (\<lparr>success = False, queryParams = [], queryBody = []\<rparr>, params)"
    by (simp add: visit_guarded aborted_def)
  from g show "visitWithin 1 this field params ctx = Some (visit this field params ctx)"
    by (auto simp: visit_guarded guarded_def Let_def)
next
  assume leaf: "\<not> isObjectType (unwrapType (field_type field))"
  then show "visit this field params ctx =
          (case visitArguments this field params ctx of
             Inl e \<Rightarrow> Inl e
           | Inr st \<Rightarrow> Inr (\<lparr>success = True, queryParams = vs_queryParams st,
                             queryBody = vs_queryBody st @ ''\<newline>''\<rparr>, vs_params st))"
    by (rule visit_leaf)
  from leaf show "visitWithin 1 this field params ctx = Some (visit this field params ctx)"
    by (auto simp: visit_leaf Let_def split: sum.splits)
next
  assume "isObjectType (unwrapType (field_type field))"
    and "\<not> (typeName (unwrapType (field_type field)) \<in> set (path ctx)
           \<or> maxDepth (config this) < int (length (path ctx)) + 1)"
  then have "isObjectType (unwrapType (field_type field))" and "\<not> guarded this field ctx"
    by (simp_all add: guarded_def)
  then show "visit this field params ctx =
          (case visitArguments this field params ctx of
             Inl e \<Rightarrow> Inl e
           | Inr st \<Rightarrow>
               (case visitFields this (typeName (unwrapType (field_type field))) ctx (vs_numArgs st)
                       (getFields (schema this) (typeName (unwrapType (field_type field))))
                       (vs_params st, vs_queryParams st, vs_queryBody st @ '' {\<newline>'', False) of
                  Inl e \<Rightarrow> Inl e
                | Inr (params', queryParams', queryBody', atLeastOneField) \<Rightarrow>
                    if \<not> atLeastOneField then
                      Inl (Error (''Expected at least one field on path: '' @ operationName ctx))
                    else
                      Inr (\<lparr>success = True, queryParams = queryParams',
                            queryBody = queryBody' @ ''}'' @ ''\<newline>''\<rparr>, params')))"
    by (rule visit_object)
next
  show "visitFields this objectType ctx n [] acc = Inr acc"
    by simp
next
  show "visitFields this objectType ctx n (nestedField # rest) (params, qp, qb, b) =
        (case visit this nestedField params (nested ctx (field_name nestedField) objectType n) of
           Inl e \<Rightarrow> Inl e
         | Inr (r, params') \<Rightarrow>
             visitFields this objectType ctx n rest
               (params', qp @ queryParams r, qb @ queryBody r, b \<or> success r))"
    by simp
next
  show "path (nested ctx fieldName objectType additionalArgs) = path ctx @ [objectType]"
    by (simp add: nested_def)
next
  assume "1 \<le> depth" and "maxDepth (config this) - int (length (path ctx)) < int depth"
  then show "visitWithin depth this field params ctx = Some (visit this field params ctx)"
    by (rule visitWithin_both(1))
next
  show "visitWithin (nat (maxDepth (config this)) + 1) this field params
        \<lparr>operationName = name, prefix = [], numArgs = 0, path = []\<rparr>
      = Some (visit this field params \<lparr>operationName = name, prefix = [], numArgs = 0, path = []\<rparr>)"
    by (rule visitWithin_both(1)) auto
qed

text \<open>
  The depth guard is for object types only: with \<open>maxDepth = 1\<close>, the scalar field \<open>id\<close>
  of \<open>Order\<close>, one object type down, is rendered although the length of its path plus
  one exceeds \<open>maxDepth\<close>, and so the query for \<open>orders\<close> selects it.
\<close>

theorem depth_guard_spares_scalar_field:
  "maxDepth (config depthOneConverter) < int (length (path orderContext)) + 1
   \<and> visit depthOneConverter idField emptyParameters orderContext
       = Inr (\<lparr>success = True, queryParams = [], queryBody = ''id\<newline>''\<rparr>, emptyParameters)
   \<and> map_sum id (\<lambda>t. query (apiQuery t)) (convertToApiFunction depthOneConverter ''query'' ordersField)
       = Inr (''query orders($customerid: ID!, $limit: Int) {\<newline>'' @
              ''orders(customerid: $customerid, limit: $limit) {\<newline>id\<newline>}\<newline>\<newline>}'')"
  by code_simp

text \<open>
  The self-referential \<open>Node\<close> is cut at its second occurrence; the scalar \<open>id\<close> is
  rendered one object type down with \<open>maxDepth = 1\<close>, within one call; and the traversal
  of \<open>orders\<close>, whose \<open>Order\<close> and \<open>Customer\<close> refer to each other, goes through the loop
  over the fields of \<open>Order\<close> and returns within four nested calls.
\<close>

theorem visit_depth_bounded_witness:
  "isObjectType (unwrapType (field_type nextField))
   \<and> typeName (unwrapType (field_type nextField)) \<in> set (path nodeContext)
   \<and> visit shopConverter nextField emptyParameters nodeContext
       = Inr (\<lparr>success = False, queryParams = [], queryBody = []\<rparr>, emptyParameters)
   \<and> visitWithin 1 shopConverter nextField emptyParameters nodeContext
       = Some (visit shopConverter nextField emptyParameters nodeContext)
   \<and> \<not> isObjectType (unwrapType (field_type idField))
   \<and> maxDepth (config depthOneConverter) < int (length (path orderContext)) + 1
   \<and> visit depthOneConverter idField emptyParameters orderContext
       = Inr (\<lparr>success = True, queryParams = [], queryBody = ''id\<newline>''\<rparr>, emptyParameters)
   \<and> visitWithin 1 depthOneConverter idField emptyParameters orderContext
       = Some (visit depthOneConverter idField emptyParameters orderContext)
   \<and> isObjectType (unwrapType (field_type ordersField))
   \<and> typeName (unwrapType (field_type ordersField)) \<notin> set (path (rootContext ''query.orders''))
   \<and> int (length (path (rootContext ''query.orders''))) + 1 \<le> maxDepth (config shopConverter)
   \<and> visit shopConverter ordersField emptyParameters (rootContext ''query.orders'')
       = (case visitFields shopConverter ''Order'' (rootContext ''query.orders'') 2
                 (getFields (schema shopConverter) ''Order'')
                 (emptyParameters
                    \<lparr>properties :=
                       [(''customerid'', FunctionDefinitionArgument (TypeString ''string'') None None None),
                        (''limit'', FunctionDefinitionArgument (TypeString ''integer'') None None None)],
                     required := [''customerid'']\<rparr>,
                  ''$customerid: ID!, $limit: Int'',
                  ''orders(customerid: $customerid, limit: $limit) {\<newline>'', False) of
            Inl e \<Rightarrow> Inl e
          | Inr (params', queryParams', queryBody', atLeastOneField) \<Rightarrow>
              if \<not> atLeastOneField
              then Inl (Error (''Expected at least one field on path: '' @
                               operationName (rootContext ''query.orders'')))
              else Inr (\<lparr>success = True, queryParams = queryParams',
                         queryBody = queryBody' @ ''}'' @ ''\<newline>''\<rparr>, params'))
   \<and> (1::nat) \<le> 4
   \<and> maxDepth (config shopConverter) - int (length (path (rootContext ''query.orders''))) < int 4
   \<and> visitWithin 4 shopConverter ordersField emptyParameters (rootContext ''query.orders'')
       = Some (visit shopConverter ordersField emptyParameters (rootContext ''query.orders''))
   \<and> (case visit shopConverter ordersField emptyParameters (rootContext ''query.orders'') of
         Inl e \<Rightarrow> False
       | Inr (r, params') \<Rightarrow> success r \<and> required params' = [''customerid''])"
proof -
  note main = visit_depth_bounded[where this = shopConverter]
  have a: "isObjectType (unwrapType (field_type nextField))"
    by code_simp
  have b: "typeName (unwrapType (field_type nextField)) \<in> set (path nodeContext)"
    by code_simp
  from b have b': "typeName (unwrapType (field_type nextField)) \<in> set (path nodeContext)
       \<or> maxDepth (config shopConverter) < int (length (path nodeContext)) + 1" ..
  note g = main[where field = nextField and ctx = nodeContext and params = emptyParameters,
                THEN conjunct1, rule_format, OF a b']
  note leaf = visit_depth_bounded[where this = depthOneConverter and field = idField
                and params = emptyParameters and ctx = orderContext]
  have l1: "\<not> isObjectType (unwrapType (field_type idField))"
    by code_simp
  have l2: "maxDepth (config depthOneConverter) < int (length (path orderContext)) + 1"
    by code_simp
  have l3: "visitArguments depthOneConverter idField emptyParameters orderContext
            = Inr \<lparr>vs_params = emptyParameters, vs_numArgs = 0, vs_queryParams = [],
                   vs_queryBody = ''id''\<rparr>"
    by code_simp
  note l4 = leaf[THEN conjunct2, THEN conjunct1, THEN mp, OF l1]
  have l5: "visit depthOneConverter idField emptyParameters orderContext
       = Inr (\<lparr>success = True, queryParams = [], queryBody = ''id\<newline>''\<rparr>, emptyParameters)"
    using l4[THEN conjunct1] by (simp add: l3)
  note l6 = l4[THEN conjunct2]
  let ?root = "rootContext ''query.orders''"
  note obj = main[where field = ordersField and params = emptyParameters and ctx = ?root]
  have o1: "isObjectType (unwrapType (field_type ordersField))"
    by code_simp
  have o2: "typeName (unwrapType (field_type ordersField)) \<notin> set (path ?root)"
    by code_simp
  have o3: "int (length (path ?root)) + 1 \<le> maxDepth (config shopConverter)"
    by code_simp
  from o2 o3 have o4: "\<not> (typeName (unwrapType (field_type ordersField)) \<in> set (path ?root)
           \<or> maxDepth (config shopConverter) < int (length (path ?root)) + 1)"
    by simp
  have o5: "visitArguments shopConverter ordersField emptyParameters ?root
            = Inr \<lparr>vs_params = emptyParameters
                      \<lparr>properties :=
                         [(''customerid'', FunctionDefinitionArgument (TypeString ''string'') None None None),
                          (''limit'', FunctionDefinitionArgument (TypeString ''integer'') None None None)],
                       required := [''customerid'']\<rparr>,
                   vs_numArgs = 2, vs_queryParams = ''$customerid: ID!, $limit: Int'',
                   vs_queryBody = ''orders(customerid: $customerid, limit: $limit)''\<rparr>"
    by code_simp
  have o6: "typeName (unwrapType (field_type ordersField)) = ''Order''"
    by code_simp
  note o8 = obj[THEN conjunct2, THEN conjunct2, THEN conjunct1, THEN mp, THEN mp, OF o1 o4]
  have o9: "visit shopConverter ordersField emptyParameters ?root
       = (case visitFields shopConverter ''Order'' ?root 2
                 (getFields (schema shopConverter) ''Order'')
                 (emptyParameters
                    \<lparr>properties :=
                       [(''customerid'', FunctionDefinitionArgument (TypeString ''string'') None None None),
                        (''limit'', FunctionDefinitionArgument (TypeString ''integer'') None None None)],
                     required := [''customerid'']\<rparr>,
                  ''$customerid: ID!, $limit: Int'',
                  ''orders(customerid: $customerid, limit: $limit) {\<newline>'', False) of
            Inl e \<Rightarrow> Inl e
          | Inr (params', queryParams', queryBody', atLeastOneField) \<Rightarrow>
              if \<not> atLeastOneField
              then Inl (Error (''Expected at least one field on path: '' @
                               operationName (rootContext ''query.orders'')))
              else Inr (\<lparr>success = True, queryParams = queryParams',
                         queryBody = queryBody' @ ''}'' @ ''\<newline>''\<rparr>, params'))"
    using o8 by (simp add: o5 o6)
  have c: "(1::nat) \<le> 4" by simp
  have d: "maxDepth (config shopConverter) - int (length (path ?root)) < int 4"
    by code_simp
  note w = obj[where depth = 4,
               THEN conjunct2, THEN conjunct2, THEN conjunct2, THEN conjunct2, THEN conjunct2,
               THEN conjunct2, THEN conjunct1, rule_format, OF c d]
  have e: "case visit shopConverter ordersField emptyParameters ?root of
         Inl e \<Rightarrow> False
       | Inr (r, params') \<Rightarrow> success r \<and> required params' = [''customerid'']"
    by code_simp
  show ?thesis
    using a b g l1 l2 l5 l6 o1 o2 o3 o9 c d w e by simp
qed

section \<open>An object type left without fields\<close>

lemma visitFields_all_guarded:
  "\<forall>nestedField \<in> set rest. guarded this nestedField (nested ctx (field_name nestedField) objectType n) \<Longrightarrow>
   visitFields this objectType ctx n rest (params, qp, qb, b) = Inr (params, qp, qb, b)"
  by (induction rest) (simp_all add: visit_guarded aborted_def)

lemma visitFields_append:
  "visitFields this objectType ctx n (xs @ ys) acc =
     (case visitFields this objectType ctx n xs acc of
        Inl e \<Rightarrow> Inl e
      | Inr acc' \<Rightarrow> visitFields this objectType ctx n ys acc')"
  by (induction xs arbitrary: acc) (auto split: sum.splits prod.splits)

lemma visitFields_Inl_at:
  assumes "visitFields this objectType ctx n before acc = Inr (params1, qp1, qb1, b1)"
    and "visit this nestedField params1 (nested ctx (field_name nestedField) objectType n) = Inl e"
  shows "visitFields this objectType ctx n (before @ nestedField # rest) acc = Inl e"
  using assms by (simp add: visitFields_append)

lemma visitFields_Inl_visit:
  "isObjectType (unwrapType (field_type field)) \<Longrightarrow> \<not> guarded this field ctx \<Longrightarrow>
   visitArguments this field params ctx = Inr st \<Longrightarrow>
   visitFields this (typeName (unwrapType (field_type field))) ctx (vs_numArgs st)
     (getFields (schema this) (typeName (unwrapType (field_type field))))
     (vs_params st, vs_queryParams st, vs_queryBody st @ '' {\<newline>'', False) = Inl e \<Longrightarrow>
   visit this field params ctx = Inl e"
  by (simp add: visit_object)

lemma visitCalls_Inl:
  assumes c: "visitCalls this (field, params, ctx) (field', params', ctx')"
    and e: "visit this field' params' ctx' = Inl e"
  shows "visit this field params ctx = Inl e"
proof -
  let ?type = "unwrapType (field_type field)"
  let ?fs = "getFields (schema this) (typeName ?type)"
  from c have obj: "isObjectType ?type" and ng: "\<not> guarded this field ctx"
    by (simp_all add: visitCalls_def Let_def)
  from c obtain st where args: "visitArguments this field params ctx = Inr st"
    by (cases "visitArguments this field params ctx") (simp_all add: visitCalls_def Let_def)
  let ?pre = "\<lambda>i. visitFields this (typeName ?type) ctx (vs_numArgs st) (take i ?fs)
                (vs_params st, vs_queryParams st, vs_queryBody st @ '' {\<newline>'', False)"
  from c args obtain i where i: "i < length ?fs"
    and res: "case ?pre i of
                Inl e \<Rightarrow> False
              | Inr (p1, qp, qb, b) \<Rightarrow>
                  (field', params', ctx') =
                  (?fs ! i, p1, nested ctx (field_name (?fs ! i)) (typeName ?type) (vs_numArgs st))"
    by (auto simp: visitCalls_def Let_def)
  from res obtain qp qb b where
    pre: "?pre i = Inr (params', qp, qb, b)"
    and f': "field' = ?fs ! i"
    and c': "ctx' = nested ctx (field_name (?fs ! i)) (typeName ?type) (vs_numArgs st)"
    by (cases "?pre i") auto
  from i have split: "?fs = take i ?fs @ ?fs ! i # drop (Suc i) ?fs"
    by (rule id_take_nth_drop)
  have "visitFields this (typeName ?type) ctx (vs_numArgs st)
          (take i ?fs @ ?fs ! i # drop (Suc i) ?fs)
          (vs_params st, vs_queryParams st, vs_queryBody st @ '' {\<newline>'', False) = Inl e"
    using pre e[unfolded f' c'] by (rule visitFields_Inl_at)
  with split have "visitFields this (typeName ?type) ctx (vs_numArgs st) ?fs
          (vs_params st, vs_queryParams st, vs_queryBody st @ '' {\<newline>'', False) = Inl e"
    by simp
  with obj ng args show ?thesis
    by (rule visitFields_Inl_visit)
qed

lemma visitCalls_rtranclp_Inl:
  assumes "rtranclp (visitCalls this) parent child"
    and "visit this (fst child) (fst (snd child)) (snd (snd child)) = Inl e"
  shows "visit this (fst parent) (fst (snd parent)) (snd (snd parent)) = Inl e"
  using assms
proof (induction rule: converse_rtranclp_induct)
  case base
  then show ?case .
next
  case (step y z)
  from step.hyps(1)
  have "visitCalls this (fst y, fst (snd y), snd (snd y)) (fst z, fst (snd z), snd (snd z))"
    by simp
  moreover have "visit this (fst z) (fst (snd z)) (snd (snd z)) = Inl e"
    using step by simp
  ultimately show ?case by (rule visitCalls_Inl)
qed

lemma convertToArgument_error:
  "convertToArgument t = Inl e \<Longrightarrow> \<exists>n. e = Error (''Unsupported type: '' @ n)"
  by (induction t arbitrary: e rule: convertToArgument.induct) (auto split: sum.splits)

text \<open>
  C6.  When \<open>visit\<close> expands an object type and every field of it is cut by the cycle or
  depth guard, so that no child returns success, \<open>visit\<close> throws
  \<open>Expected at least one field on path: <operationName>\<close>.  The message differs from
  every \<open>Unsupported type\<close> message, which is all the type mapper throws.  An error
  thrown by the \<open>visit\<close> of a child, whichever fields the loop has passed before it, comes
  out of the loop over the fields and out of the \<open>visit\<close> that made the call; so an error
  thrown by any \<open>visit\<close> that the \<open>visit\<close> of the operation's field reaches, through any
  number of nested calls, ends the conversion of the operation: \<open>convertToApiFunction\<close>
  throws it and \<open>createApiFunctionFromGraphQLOperation\<close> gives no tool.
\<close>

theorem visit_without_fields_raises:
  "(isObjectType (unwrapType (field_type field)) \<longrightarrow> \<not> guarded this field ctx \<longrightarrow>
      visitArguments this field params ctx = Inr st \<longrightarrow>
      (\<forall>nestedField \<in> set (getFields (schema this) (typeName (unwrapType (field_type field)))).
          guarded this nestedField
            (nested ctx (field_name nestedField) (typeName (unwrapType (field_type field)))
               (vs_numArgs st))) \<longrightarrow>
      visit this field params ctx
        = Inl (Error (''Expected at least one field on path: '' @ operationName ctx)))
   \<and> Error (''Expected at least one field on path: '' @ operationPath)
        \<noteq> Error (''Unsupported type: '' @ unsupported)
   \<and> (convertToArgument inputType = Inl e \<longrightarrow>
        (\<exists>n. e = Error (''Unsupported type: '' @ n))
        \<and> e \<noteq> Error (''Expected at least one field on path: '' @ operationPath))
   \<and> (visitFields this objectType ctx n before acc = Inr (paramsBefore, qpBefore, qbBefore, successBefore) \<longrightarrow>
        visit this nestedField paramsBefore (nested ctx (field_name nestedField) objectType n) = Inl e' \<longrightarrow>
        visitFields this objectType ctx n (before @ nestedField # rest) acc = Inl e')
   \<and> (isObjectType (unwrapType (field_type field)) \<longrightarrow> \<not> guarded this field ctx \<longrightarrow>
        visitArguments this field params ctx = Inr st \<longrightarrow>
        visitFields this (typeName (unwrapType (field_type field))) ctx (vs_numArgs st)
          (getFields (schema this) (typeName (unwrapType (field_type field))))
          (vs_params st, vs_queryParams st, vs_queryBody st @ '' {\<newline>'', False) = Inl e'' \<longrightarrow>
        visit this field params ctx = Inl e'')
   \<and> (visitCalls this (field, params, ctx) (field', params', ctx') \<longrightarrow>
        visit this field' params' ctx' = Inl e''' \<longrightarrow>
        visit this field params ctx = Inl e''')
   \<and> (rtranclp (visitCalls this)
          (field, emptyParameters, rootContext (toLowerCase operationType @ ''.'' @ field_name field))
          (field', params', ctx') \<longrightarrow>
        visit this field' params' ctx' = Inl e''' \<longrightarrow>
        convertToApiFunction this operationType field = Inl e'''
        \<and> fst (createApiFunctionFromGraphQLOperation this operationType field) = None)"
proof (intro conjI impI)
  assume obj: "isObjectType (unwrapType (field_type field))" and ng: "\<not> guarded this field ctx"
    and args: "visitArguments this field params ctx = Inr st"
    and all: "\<forall>nestedField \<in> set (getFields (schema this) (typeName (unwrapType (field_type field)))).
          guarded this nestedField
            (nested ctx (field_name nestedField) (typeName (unwrapType (field_type field)))
               (vs_numArgs st))"
  show "visit this field params ctx
        = Inl (Error (''Expected at least one field on path: '' @ operationName ctx))"
    by (simp add: visit_object[OF obj ng] args visitFields_all_guarded[OF all])
next
  show "Error (''Expected at least one field on path: '' @ operationPath)
        \<noteq> Error (''Unsupported type: '' @ unsupported)"
    by simp
next
  assume "convertToArgument inputType = Inl e"
  then obtain n where e: "e = Error (''Unsupported type: '' @ n)"
    by (auto dest: convertToArgument_error)
  then show "\<exists>n. e = Error (''Unsupported type: '' @ n)" by blast
  from e show "e \<noteq> Error (''Expected at least one field on path: '' @ operationPath)" by simp
next
  assume "visitFields this objectType ctx n before acc = Inr (paramsBefore, qpBefore, qbBefore, successBefore)"
    and "visit this nestedField paramsBefore (nested ctx (field_name nestedField) objectType n) = Inl e'"
  then show "visitFields this objectType ctx n (before @ nestedField # rest) acc = Inl e'"
    by (rule visitFields_Inl_at)
next
  assume "isObjectType (unwrapType (field_type field))" "\<not> guarded this field ctx"
    "visitArguments this field params ctx = Inr st"
    "visitFields this (typeName (unwrapType (field_type field))) ctx (vs_numArgs st)
          (getFields (schema this) (typeName (unwrapType (field_type field))))
          (vs_params st, vs_queryParams st, vs_queryBody st @ '' {\<newline>'', False) = Inl e''"
  then show "visit this field params ctx = Inl e''"
    by (rule visitFields_Inl_visit)
next
  assume "visitCalls this (field, params, ctx) (field', params', ctx')"
    and "visit this field' params' ctx' = Inl e'''"
  then show "visit this field params ctx = Inl e'''"
    by (rule visitCalls_Inl)
next
  let ?root = "rootContext (toLowerCase operationType @ ''.'' @ field_name field)"
  assume r: "rtranclp (visitCalls this) (field, emptyParameters, ?root) (field', params', ctx')"
    and e: "visit this field' params' ctx' = Inl e'''"
  have "visit this field emptyParameters ?root = Inl e'''"
    using visitCalls_rtranclp_Inl[OF r] e by simp
  then show c: "convertToApiFunction this operationType field = Inl e'''"
    by (simp add: convertToApiFunction_def initializeFunctionDefinition_def Let_def
                  emptyParameters_def rootContext_def)
  then show "fst (createApiFunctionFromGraphQLOperation this operationType field) = None"
    by (simp add: createApiFunctionFromGraphQLOperation_def)
qed

text \<open>
  With \<open>maxDepth = 1\<close> the only field of \<open>Basket\<close> is cut by the depth guard, and the
  conversion of \<open>basket\<close> fails with the path of the operation.  In the shop itself the
  only field of \<open>Node\<close> is cut by the cycle guard one level below \<open>holder\<close>, and the error
  comes out of the \<open>visit\<close> of \<open>holder\<close>.  Below \<open>crate\<close> the node is the second field of
  \<open>Pair\<close>, itself the second field of \<open>Crate\<close>: the error names the path down to \<open>bad\<close>,
  passes the loop of \<open>Pair\<close> after \<open>ok\<close> has been rendered, and ends the conversion of
  \<open>crate\<close>.
\<close>

theorem visit_without_fields_raises_witness:
  "isObjectType (unwrapType (field_type basketField))
   \<and> \<not> guarded depthOneConverter basketField (rootContext ''query.basket'')
   \<and> visitArguments depthOneConverter basketField emptyParameters (rootContext ''query.basket'')
       = Inr \<lparr>vs_params = emptyParameters, vs_numArgs = 0, vs_queryParams = [],
              vs_queryBody = ''basket''\<rparr>
   \<and> list_all (\<lambda>nestedField. guarded depthOneConverter nestedField
                   (nested (rootContext ''query.basket'') (field_name nestedField) ''Basket'' 0))
        (getFields (schema depthOneConverter) ''Basket'')
   \<and> visit depthOneConverter basketField emptyParameters (rootContext ''query.basket'')
       = Inl (Error ''Expected at least one field on path: query.basket'')
   \<and> convertToArgument (InInputObject ''OrderInput'') = Inl (Error ''Unsupported type: OrderInput'')
   \<and> Error ''Unsupported type: OrderInput''
       \<noteq> Error ''Expected at least one field on path: query.basket''
   \<and> convertToApiFunction depthOneConverter ''query'' basketField
       = Inl (Error ''Expected at least one field on path: query.basket'')
   \<and> fst (createApiFunctionFromGraphQLOperation depthOneConverter ''query'' basketField) = None
   \<and> isObjectType (unwrapType (field_type holderField))
   \<and> \<not> guarded shopConverter holderField (rootContext ''query.holder'')
   \<and> visitArguments shopConverter holderField emptyParameters (rootContext ''query.holder'')
       = Inr \<lparr>vs_params = emptyParameters, vs_numArgs = 0, vs_queryParams = [],
              vs_queryBody = ''holder''\<rparr>
   \<and> visit shopConverter holderField emptyParameters (rootContext ''query.holder'')
       = Inl (Error ''Expected at least one field on path: query.holder.node'')
   \<and> getFields (schema shopConverter) ''Pair'' = [okField, badField]
   \<and> list_all (\<lambda>nestedField. guarded shopConverter nestedField
                   (nested badContext (field_name nestedField) ''Node'' 0))
        (getFields (schema shopConverter) ''Node'')
   \<and> visit shopConverter badField emptyParameters badContext
       = Inl (Error ''Expected at least one field on path: query.crate.pair.bad'')
   \<and> visitFields shopConverter ''Pair'' pairContext 0 [okField]
         (emptyParameters, [], ''pair {\<newline>'', False)
       = Inr (emptyParameters, [], ''pair {\<newline>ok\<newline>'', True)
   \<and> visitFields shopConverter ''Pair'' pairContext 0 [okField, badField]
         (emptyParameters, [], ''pair {\<newline>'', False)
       = Inl (Error ''Expected at least one field on path: query.crate.pair.bad'')
   \<and> visitCalls shopConverter (crateField, emptyParameters, crateContext)
        (pairField, emptyParameters, pairContext)
   \<and> visitCalls shopConverter (pairField, emptyParameters, pairContext)
        (badField, emptyParameters, badContext)
   \<and> visit shopConverter pairField emptyParameters pairContext
       = Inl (Error ''Expected at least one field on path: query.crate.pair.bad'')
   \<and> convertToApiFunction shopConverter ''query'' crateField
       = Inl (Error ''Expected at least one field on path: query.crate.pair.bad'')
   \<and> fst (createApiFunctionFromGraphQLOperation shopConverter ''query'' crateField) = None"
proof -
  let ?st = "\<lparr>vs_params = emptyParameters, vs_numArgs = 0, vs_queryParams = [],
              vs_queryBody = ''basket''\<rparr>"
  let ?sth = "\<lparr>vs_params = emptyParameters, vs_numArgs = 0, vs_queryParams = [],
              vs_queryBody = ''holder''\<rparr>"
  let ?stb = "\<lparr>vs_params = emptyParameters, vs_numArgs = 0, vs_queryParams = [],
              vs_queryBody = ''bad''\<rparr>"
  let ?e = "Error ''Expected at least one field on path: query.holder.node''"
  let ?eb = "Error ''Expected at least one field on path: query.crate.pair.bad''"
  note main = visit_without_fields_raises[where this = depthOneConverter and field = basketField
      and params = emptyParameters and ctx = "rootContext ''query.basket''" and st = ?st
      and operationType = "''query''" and inputType = "InInputObject ''OrderInput''"
      and operationPath = "''query.basket''" and field' = basketField and params' = emptyParameters
      and ctx' = "rootContext ''query.basket''"]
  have a: "isObjectType (unwrapType (field_type basketField))"
    by code_simp
  have b: "\<not> guarded depthOneConverter basketField (rootContext ''query.basket'')"
    by code_simp
  have c: "visitArguments depthOneConverter basketField emptyParameters (rootContext ''query.basket'')
       = Inr ?st"
    by code_simp
  have d: "\<forall>nestedField \<in> set (getFields (schema depthOneConverter)
                                    (typeName (unwrapType (field_type basketField)))).
             guarded depthOneConverter nestedField
               (nested (rootContext ''query.basket'') (field_name nestedField)
                  (typeName (unwrapType (field_type basketField))) (vs_numArgs ?st))"
    by code_simp
  have d': "list_all (\<lambda>nestedField. guarded depthOneConverter nestedField
                   (nested (rootContext ''query.basket'') (field_name nestedField) ''Basket'' 0))
        (getFields (schema depthOneConverter) ''Basket'')"
    by code_simp
  have name: "operationName (rootContext ''query.basket'') = ''query.basket''"
    by (simp add: rootContext_def)
  have e: "visit depthOneConverter basketField emptyParameters (rootContext ''query.basket'')
       = Inl (Error ''Expected at least one field on path: query.basket'')"
    using main[THEN conjunct1, THEN mp, THEN mp, THEN mp, THEN mp, OF a b c d] by (simp add: name)
  have f: "convertToArgument (InInputObject ''OrderInput'') = Inl (Error ''Unsupported type: OrderInput'')"
    by simp
  note f' = main[THEN conjunct2, THEN conjunct2, THEN conjunct1, THEN mp, OF f, THEN conjunct2]
  have root: "rootContext (toLowerCase ''query'' @ ''.'' @ field_name basketField)
                = rootContext ''query.basket''"
    by code_simp
  have here: "rtranclp (visitCalls depthOneConverter)
                (basketField, emptyParameters,
                 rootContext (toLowerCase ''query'' @ ''.'' @ field_name basketField))
                (basketField, emptyParameters, rootContext ''query.basket'')"
    by (simp only: root rtranclp.rtrancl_refl)
  note g = main[THEN conjunct2, THEN conjunct2, THEN conjunct2, THEN conjunct2, THEN conjunct2,
                THEN conjunct2, THEN mp, THEN mp, OF here e]
  note deep = visit_without_fields_raises[where this = shopConverter and field = holderField
      and params = emptyParameters and ctx = "rootContext ''query.holder''" and st = ?sth]
  have i: "isObjectType (unwrapType (field_type holderField))"
    by code_simp
  have j: "\<not> guarded shopConverter holderField (rootContext ''query.holder'')"
    by code_simp
  have k: "visitArguments shopConverter holderField emptyParameters (rootContext ''query.holder'')
       = Inr ?sth"
    by code_simp
  have l: "visitFields shopConverter (typeName (unwrapType (field_type holderField)))
             (rootContext ''query.holder'') (vs_numArgs ?sth)
             (getFields (schema shopConverter) (typeName (unwrapType (field_type holderField))))
             (vs_params ?sth, vs_queryParams ?sth, vs_queryBody ?sth @ '' {\<newline>'', False) = Inl ?e"
    by code_simp
  note m = deep[THEN conjunct2, THEN conjunct2, THEN conjunct2, THEN conjunct2, THEN conjunct1,
                THEN mp, THEN mp, THEN mp, THEN mp, OF i j k l]
  note leaf = visit_without_fields_raises[where this = shopConverter and field = badField
      and params = emptyParameters and ctx = badContext and st = ?stb]
  have fs: "getFields (schema shopConverter) ''Pair'' = [okField, badField]"
    by code_simp
  have o1: "isObjectType (unwrapType (field_type badField))"
    by code_simp
  have o2: "\<not> guarded shopConverter badField badContext"
    by code_simp
  have o3: "visitArguments shopConverter badField emptyParameters badContext = Inr ?stb"
    by code_simp
  have o4: "\<forall>nestedField \<in> set (getFields (schema shopConverter)
                                    (typeName (unwrapType (field_type badField)))).
             guarded shopConverter nestedField
               (nested badContext (field_name nestedField)
                  (typeName (unwrapType (field_type badField))) (vs_numArgs ?stb))"
    by code_simp
  have o4': "list_all (\<lambda>nestedField. guarded shopConverter nestedField
                   (nested badContext (field_name nestedField) ''Node'' 0))
        (getFields (schema shopConverter) ''Node'')"
    by code_simp
  have bname: "operationName badContext = ''query.crate.pair.bad''"
    by code_simp
  have o: "visit shopConverter badField emptyParameters badContext = Inl ?eb"
    using leaf[THEN conjunct1, THEN mp, THEN mp, THEN mp, THEN mp, OF o1 o2 o3 o4]
    by (simp add: bname)
  note step = visit_without_fields_raises[where this = shopConverter and field = pairField
      and params = emptyParameters and ctx = pairContext and objectType = "''Pair''" and n = 0
      and before = "[okField]" and nestedField = badField and rest = "[]"
      and acc = "(emptyParameters, [], ''pair {\<newline>'', False)"
      and paramsBefore = emptyParameters and qpBefore = "[]" and qbBefore = "''pair {\<newline>ok\<newline>''" and successBefore = True
      and field' = badField and params' = emptyParameters and ctx' = badContext]
  have p1: "visitFields shopConverter ''Pair'' pairContext 0 [okField]
              (emptyParameters, [], ''pair {\<newline>'', False)
            = Inr (emptyParameters, [], ''pair {\<newline>ok\<newline>'', True)"
    by code_simp
  have p2: "nested pairContext (field_name badField) ''Pair'' 0 = badContext"
    by code_simp
  have p3: "visit shopConverter badField emptyParameters
              (nested pairContext (field_name badField) ''Pair'' 0) = Inl ?eb"
    by (simp only: p2 o)
  have p: "visitFields shopConverter ''Pair'' pairContext 0 [okField, badField]
              (emptyParameters, [], ''pair {\<newline>'', False) = Inl ?eb"
    using step[THEN conjunct2, THEN conjunct2, THEN conjunct2, THEN conjunct1, THEN mp, THEN mp,
               OF p1 p3]
    by simp
  have q1: "visitCalls shopConverter (crateField, emptyParameters, crateContext)
              (pairField, emptyParameters, pairContext)"
    by code_simp
  have q2: "visitCalls shopConverter (pairField, emptyParameters, pairContext)
              (badField, emptyParameters, badContext)"
    by code_simp
  note q = step[THEN conjunct2, THEN conjunct2, THEN conjunct2, THEN conjunct2, THEN conjunct2,
                THEN conjunct1, THEN mp, THEN mp, OF q2 o]
  note whole = visit_without_fields_raises[where this = shopConverter and field = crateField
      and operationType = "''query''" and field' = badField and params' = emptyParameters
      and ctx' = badContext]
  have croot: "rootContext (toLowerCase ''query'' @ ''.'' @ field_name crateField) = crateContext"
    by code_simp
  have "rtranclp (visitCalls shopConverter) (crateField, emptyParameters, crateContext)
          (badField, emptyParameters, badContext)"
    using q1 q2 by (rule converse_rtranclp_into_rtranclp[OF _ r_into_rtranclp])
  then have reach: "rtranclp (visitCalls shopConverter)
          (crateField, emptyParameters,
           rootContext (toLowerCase ''query'' @ ''.'' @ field_name crateField))
          (badField, emptyParameters, badContext)"
    by (simp only: croot)
  note r = whole[THEN conjunct2, THEN conjunct2, THEN conjunct2, THEN conjunct2, THEN conjunct2,
                 THEN conjunct2, THEN mp, THEN mp, OF reach o]
  show ?thesis
    using a b c d' e f f' g i j k m fs o4' o p1 p q1 q2 q r by simp
qed

section \<open>Operations that cannot be converted are left out\<close>

lemma map_the_filter_Some:
  "map the (filter (\<lambda>x. x \<noteq> None) (map fst (map g xs))) =
   concat (map (\<lambda>x. case fst (g x) of None \<Rightarrow> [] | Some t \<Rightarrow> [t]) xs)"
  by (induction xs) (auto split: option.splits)

lemma concat_map_snd:
  "concat (map snd (map g xs)) = concat (map (\<lambda>x. snd (g x)) xs)"
  by (simp add: comp_def)

lemma created_tools:
  "(case fst (createApiFunctionFromGraphQLOperation this operationName' field) of
      None \<Rightarrow> [] | Some t \<Rightarrow> [t]) =
   (if operationFilter (config this) operationName' (field_name field)
    then (case convertToApiFunction this operationName' field of Inl e \<Rightarrow> [] | Inr t \<Rightarrow> [t])
    else [])"
  by (simp add: createApiFunctionFromGraphQLOperation_def split: sum.splits)

lemma created_log:
  "snd (createApiFunctionFromGraphQLOperation this operationName' field) =
   (if operationFilter (config this) operationName' (field_name field)
    then (case convertToApiFunction this operationName' field of
            Inl e \<Rightarrow> [(''Error converting query: '' @ field_name field, e)]
          | Inr t \<Rightarrow> [])
    else [])"
  by (simp add: createApiFunctionFromGraphQLOperation_def split: sum.splits)

text \<open>
  C5, as amended.  \<open>convertSchema\<close> has no error to raise: it returns a list.  The list
  holds exactly the tools of the root fields that pass the operation filter and whose
  conversion succeeds, the queries first, then the mutations, each in field order.  A
  field whose conversion throws is left out and logged, with its name and the error; a
  field the filter rejects is left out and not logged.
\<close>

theorem convertSchema_skips_failed_operations:
  "fst (convertSchema this) =
     concat (map (\<lambda>field.
         if operationFilter (config this) ''query'' (field_name field)
         then (case convertToApiFunction this ''query'' field of Inl e \<Rightarrow> [] | Inr t \<Rightarrow> [t])
         else [])
       (case getQueryType (schema this) of None \<Rightarrow> [] | Some t \<Rightarrow> getFields (schema this) t))
     @ concat (map (\<lambda>field.
         if operationFilter (config this) ''mutation'' (field_name field)
         then (case convertToApiFunction this ''mutation'' field of Inl e \<Rightarrow> [] | Inr t \<Rightarrow> [t])
         else [])
       (case getMutationType (schema this) of None \<Rightarrow> [] | Some t \<Rightarrow> getFields (schema this) t))
   \<and> snd (convertSchema this) =
     concat (map (\<lambda>field.
         if operationFilter (config this) ''query'' (field_name field)
         then (case convertToApiFunction this ''query'' field of
                 Inl e \<Rightarrow> [(''Error converting query: '' @ field_name field, e)]
               | Inr t \<Rightarrow> [])
         else [])
       (case getQueryType (schema this) of None \<Rightarrow> [] | Some t \<Rightarrow> getFields (schema this) t))
     @ concat (map (\<lambda>field.
         if operationFilter (config this) ''mutation'' (field_name field)
         then (case convertToApiFunction this ''mutation'' field of
                 Inl e \<Rightarrow> [(''Error converting query: '' @ field_name field, e)]
               | Inr t \<Rightarrow> [])
         else [])
       (case getMutationType (schema this) of None \<Rightarrow> [] | Some t \<Rightarrow> getFields (schema this) t))"
  by (simp only: convertSchema_def Let_def fst_conv snd_conv filter_append map_append
                 map_the_filter_Some concat_map_snd created_tools created_log)

text \<open>
  In the shop, \<open>internalStats\<close> is rejected by the filter and \<open>loop\<close> cannot be converted:
  neither is among the tools, and the log holds the one line for \<open>loop\<close>.
\<close>

theorem filtered_operation_is_not_logged:
  "\<not> operationFilter (config shopConverter) ''query'' ''internalStats''
   \<and> map getName (fst (convertSchema shopConverter)) = [''orders'', ''basket'', ''addOrder'']
   \<and> snd (convertSchema shopConverter) =
       [(''Error converting query: loop'',
         Error ''Expected at least one field on path: query.loop'')]"
  by code_simp

section \<open>Commas in the synthesized query\<close>

text \<open>
  C3, the rule and two inputs.  \<open>processField\<close> puts a comma in front of the binding
  when the running count is positive, and in front of the declaration when
  \<open>context.numArgs\<close> plus the running count is positive.  For
  \<open>search(a: Int, filter: Filter)\<close>, where \<open>Filter\<close> is an input object with the fields
  \<open>x\<close> and \<open>y\<close>, \<open>visit\<close> then writes no comma between \<open>$a\<close> and \<open>filter\<close> and a
  comma in front of the first field of the object; the argument loop of the second
  variant writes both as they should be.  For \<open>root\<close>, whose object type has the fields
  \<open>f(a: Int)\<close> and \<open>g(b: Int)\<close>, \<open>visit\<close> writes no comma between the two variable
  declarations.
\<close>

theorem comma_placement_at_failing_inputs:
  "(case processField params ctx n unwrappedType argName originalName description of
      Inl e \<Rightarrow> True
    | Inr (processed, params') \<Rightarrow>
        pf_queryHeader processed = (if 0 < numArgs ctx + n then '', '' else [])
        \<and> pf_queryBody processed
            = (if 0 < n then '', '' else []) @ originalName @ '': $'' @ argName)
   \<and> (map_sum id fst (visit catalogConverter searchField emptyParameters (rootContext ''query.search''))
     = Inr \<lparr>success = True, queryParams = ''$a: Int, $x: Int, $y: Int'',
            queryBody = ''search(a: $afilter: { , x: $x, y: $y })\<newline>''\<rparr>
   \<and> map_sum id vs_queryBody
        (visitArguments2 catalogConverter searchField emptyParameters (rootContext ''query.search''))
     = Inr ''search(a: $a, filter: { x: $x, y: $y })''
   \<and> map_sum id fst (visit catalogConverter rootField emptyParameters (rootContext ''query.root''))
     = Inr \<lparr>success = True, queryParams = ''$f_a: Int$g_b: Int'',
            queryBody = ''root {\<newline>f(a: $f_a)\<newline>g(b: $g_b)\<newline>}\<newline>''\<rparr>
   \<and> map (\<lambda>t. query (apiQuery t)) (fst (convertSchema catalogConverter))
     = [''query search($a: Int, $x: Int, $y: Int) {\<newline>search(a: $afilter: { , x: $x, y: $y })\<newline>\<newline>}'',
        ''query root($f_a: Int$g_b: Int) {\<newline>root {\<newline>f(a: $f_a)\<newline>g(b: $g_b)\<newline>}\<newline>\<newline>}''])"
proof (rule conjI)
  show "case processField params ctx n unwrappedType argName originalName description of
      Inl e \<Rightarrow> True
    | Inr (processed, params') \<Rightarrow>
        pf_queryHeader processed = (if 0 < numArgs ctx + n then '', '' else [])
        \<and> pf_queryBody processed
            = (if 0 < n then '', '' else []) @ originalName @ '': $'' @ argName"
    by (simp add: processField_def Let_def split: sum.splits)
qed code_simp

section \<open>Context keys: hidden from the model, merged at execution\<close>

lemma getFieldFilter_iff: "getFieldFilter keys name = (\<not> matchesContextKey keys name)"
  by (force simp: getFieldFilter_def matchesContextKey_def Let_def image_iff)




lemma update_fresh: "k \<notin> fst ` set acc0 \<Longrightarrow> AList.update k v acc0 = acc0 @ [(k, v)]"
  by (induction acc0) auto

lemma foldl_update_fresh:
  "distinct ks \<Longrightarrow> set ks \<inter> fst ` set acc0 = {} \<Longrightarrow>
   foldl (\<lambda>acc k. AList.update k (f k) acc) acc0 ks = acc0 @ map (\<lambda>k. (k, f k)) ks"
proof (induction ks arbitrary: acc0)
  case Nil
  then show ?case by simp
next
  case (Cons k ks)
  from Cons.prems have fresh: "k \<notin> fst ` set acc0" by auto
  from Cons.prems have "set ks \<inter> fst ` set (acc0 @ [(k, f k)]) = {}" by auto
  with Cons.prems have
    "foldl (\<lambda>acc k. AList.update k (f k) acc) (acc0 @ [(k, f k)]) ks
       = (acc0 @ [(k, f k)]) @ map (\<lambda>k. (k, f k)) ks"
    by (intro Cons.IH) auto
  then show ?case
    by (simp add: update_fresh[OF fresh])
qed

lemma filterObjectKeys_distinct:
  assumes "distinct (map fst data)"
  shows "filterObjectKeys flt data = filter (\<lambda>(k, v). flt k) data"
proof -
  have "filterObjectKeys flt data
          = map (\<lambda>k. (k, the (map_of data k))) (filter flt (map fst data))"
    using assms by (simp add: filterObjectKeys_def Let_def foldl_update_fresh distinct_map_filter)
  also have "\<dots> = map (\<lambda>(k, v). (k, the (map_of data k))) (filter (\<lambda>(k, v). flt k) data)"
    by (simp add: filter_map comp_def case_prod_unfold)
  also have "\<dots> = map (\<lambda>(k, v). (k, v)) (filter (\<lambda>(k, v). flt k) data)"
    using assms by (intro map_cong) auto
  finally show ?thesis by simp
qed





section \<open>Validation sees the model-facing definition\<close>

lemma distinct_foldl_update:
  "distinct (map fst acc0) \<Longrightarrow>
   distinct (map fst (foldl (\<lambda>acc k. AList.update k (f k) acc) acc0 ks))"
  by (induction ks arbitrary: acc0) (simp_all add: distinct_update)

lemma dom_foldl_update:
  "fst ` set (foldl (\<lambda>acc k. AList.update k (f k) acc) acc0 ks) = fst ` set acc0 \<union> set ks"
  by (induction ks arbitrary: acc0) (auto simp: dom_update)

lemma filterObjectKeys_idem:
  "filterObjectKeys flt (filterObjectKeys flt data) = filterObjectKeys flt data"
proof -
  let ?r = "filterObjectKeys flt data"
  have d: "distinct (map fst ?r)"
    by (simp add: filterObjectKeys_def Let_def distinct_foldl_update)
  have "fst ` set ?r = set (filter flt (map fst data))"
    by (simp add: filterObjectKeys_def Let_def dom_foldl_update)
  then have "\<forall>x \<in> set ?r. flt (fst x)" by auto
  then have "filter (\<lambda>(k, v). flt k) ?r = ?r"
    by (auto simp: filter_id_conv)
  with filterObjectKeys_distinct[OF d] show ?thesis by simp
qed

lemma foldl_update_cong:
  "\<forall>k \<in> set ks. f k = g k \<Longrightarrow>
   foldl (\<lambda>acc k. AList.update k (f k) acc) acc0 ks = foldl (\<lambda>acc k. AList.update k (g k) acc) acc0 ks"
  by (induction ks arbitrary: acc0) simp_all

lemma filterObjectKeys_update_hidden:
  assumes "\<not> flt name"
  shows "filterObjectKeys flt (AList.update name descriptor data) = filterObjectKeys flt data"
proof -
  have keys: "filter flt (map fst (AList.update name descriptor data)) = filter flt (map fst data)"
    using assms by (simp add: update_keys)
  have "\<forall>k \<in> set (filter flt (map fst data)).
          the (map_of (AList.update name descriptor data) k) = the (map_of data k)"
    using assms by (auto simp: update_conv')
  then show ?thesis
    unfolding filterObjectKeys_def Let_def keys by (rule foldl_update_cong)
qed

lemma getModelFunction_idem: "getModelFunction (t\<lparr>func := getModelFunction t\<rparr>) = getModelFunction t"
  by (simp add: getModelFunction_def Let_def filterObjectKeys_idem)

lemma getModelFunction_required_hidden:
  "matchesContextKey (contextKeys t) name \<Longrightarrow>
   getModelFunction
     (t\<lparr>func := (func t)\<lparr>parameters := (parameters (func t))
          \<lparr>required := required (parameters (func t)) @ [name]\<rparr>\<rparr>\<rparr>) = getModelFunction t"
  by (simp add: getModelFunction_def Let_def getFieldFilter_iff)

lemma getModelFunction_property_hidden:
  "matchesContextKey (contextKeys t) name \<Longrightarrow>
   getModelFunction
     (t\<lparr>func := (func t)\<lparr>parameters := (parameters (func t))
          \<lparr>properties := AList.update name descriptor (properties (parameters (func t)))\<rparr>\<rparr>\<rparr>)
     = getModelFunction t"
  by (simp add: getModelFunction_def Let_def getFieldFilter_iff filterObjectKeys_update_hidden)

text \<open>
  C9.  \<open>validate\<close> hands the executor the model-facing definition, and \<open>validateAndExecute\<close>
  decides on that result.  So validation is what it would be for the tool whose full
  definition is the filtered one: requiring a parameter whose name matches a context
  key, or changing its descriptor, changes no validation result.
\<close>

theorem validation_ignores_context_keys:
  "validate t argumentsNode
     = ex_validate (apiExecutor t) (getModelFunction t) (Some argumentsNode)
   \<and> validateAndExecute t argumentsNode ctx
       = (if isValid (ex_validate (apiExecutor t) (getModelFunction t) (Some argumentsNode))
          then execute t argumentsNode ctx
          else Inr (createInvalidCallMessage (fd_name (func t))
                      (errorMessage (ex_validate (apiExecutor t) (getModelFunction t)
                                       (Some argumentsNode)))))
   \<and> validate (t\<lparr>func := getModelFunction t\<rparr>) argumentsNode = validate t argumentsNode
   \<and> (matchesContextKey (contextKeys t) name \<longrightarrow>
        validate
          (t\<lparr>func := (func t)\<lparr>parameters := (parameters (func t))
               \<lparr>required := required (parameters (func t)) @ [name]\<rparr>\<rparr>\<rparr>) argumentsNode
          = validate t argumentsNode
        \<and> validate
          (t\<lparr>func := (func t)\<lparr>parameters := (parameters (func t))
               \<lparr>properties := AList.update name descriptor (properties (parameters (func t)))\<rparr>\<rparr>\<rparr>)
            argumentsNode
          = validate t argumentsNode)"
proof (intro conjI impI)
  show "validate (t\<lparr>func := getModelFunction t\<rparr>) argumentsNode = validate t argumentsNode"
    by (simp add: validate_def getModelFunction_idem)
next
  assume m: "matchesContextKey (contextKeys t) name"
  show "validate
          (t\<lparr>func := (func t)\<lparr>parameters := (parameters (func t))
               \<lparr>required := required (parameters (func t)) @ [name]\<rparr>\<rparr>\<rparr>) argumentsNode
          = validate t argumentsNode"
    by (simp add: validate_def getModelFunction_required_hidden[OF m])
  show "validate
          (t\<lparr>func := (func t)\<lparr>parameters := (parameters (func t))
               \<lparr>properties := AList.update name descriptor (properties (parameters (func t)))\<rparr>\<rparr>\<rparr>)
            argumentsNode
          = validate t argumentsNode"
    by (simp add: validate_def getModelFunction_property_hidden[OF m])
qed (simp_all add: validate_def validateAndExecute_def Let_def)

text \<open>
  The executor of \<open>ordersTool\<close> insists on every required parameter.  The full
  definition requires \<open>customerid\<close>, so it rejects arguments with \<open>limit\<close> alone; the
  tool's own validation accepts them.
\<close>

theorem validation_ignores_context_keys_witness:
  "matchesContextKey (contextKeys ordersTool) ''customerid''
   \<and> \<not> isValid (ex_validate (apiExecutor ordersTool) (func ordersTool)
                  (Some [''limit'' \<mapsto> JNumber 10]))
   \<and> isValid (validate ordersTool [''limit'' \<mapsto> JNumber 10])
   \<and> validate
        (ordersTool\<lparr>func := (func ordersTool)\<lparr>parameters := (parameters (func ordersTool))
             \<lparr>required := required (parameters (func ordersTool)) @ [''customerid'']\<rparr>\<rparr>\<rparr>)
        [''limit'' \<mapsto> JNumber 10]
       = \<lparr>isValid = True, errorMessage = None\<rparr>"
proof -
  note main = validation_ignores_context_keys[where t = ordersTool and name = "''customerid''"
      and argumentsNode = "[''limit'' \<mapsto> JNumber 10]"]
  have a: "matchesContextKey (contextKeys ordersTool) ''customerid''"
    by code_simp
  have b: "\<not> isValid (ex_validate (apiExecutor ordersTool) (func ordersTool)
                  (Some [''limit'' \<mapsto> JNumber 10]))"
    by code_simp
  have c: "validate ordersTool [''limit'' \<mapsto> JNumber 10] = \<lparr>isValid = True, errorMessage = None\<rparr>"
    by code_simp
  note d = main[THEN conjunct2, THEN conjunct2, THEN conjunct2, THEN mp, OF a, THEN conjunct1]
  show ?thesis
    using a b c d by simp
qed

section \<open>Arguments given as a string\<close>

text \<open>
  C7, as amended.  \<open>validateAndExecuteFromString\<close> raises nothing of its own.  For a
  string that is not valid JSON it returns the retry message with the name of the tool
  and \<open>Malformed JSON:\<close> followed by the message of the parse error.  For valid JSON
  whose arguments fail validation it returns the same retry message with the validation
  error.  For valid arguments it returns what the executor's \<open>executeQuery\<close> gives for
  the merged arguments, so a rejection of the executor reaches the caller.
\<close>

theorem validateAndExecuteFromString_outcomes:
  "(JSON_parse argsJson = Inl err \<longrightarrow>
      validateAndExecuteFromString JSON_parse t argsJson ctx
        = Inr (''It looks like you tried to call function `'' @ fd_name (func t) @ ''`, '' @
               ''but this has failed with the following error: '' @
               ''Malformed JSON: '' @ message err @ ''. '' @
               ''Please retry to call the function again. Send ONLY the JSON as a response.''))
   \<and> (JSON_parse argsJson = Inr argumentsNode \<longrightarrow> \<not> isValid (validate t argumentsNode) \<longrightarrow>
      validateAndExecuteFromString JSON_parse t argsJson ctx
        = Inr (''It looks like you tried to call function `'' @ fd_name (func t) @ ''`, '' @
               ''but this has failed with the following error: '' @
               templateString (errorMessage (validate t argumentsNode)) @ ''. '' @
               ''Please retry to call the function again. Send ONLY the JSON as a response.''))
   \<and> (JSON_parse argsJson = Inr argumentsNode \<longrightarrow> isValid (validate t argumentsNode) \<longrightarrow>
      validateAndExecuteFromString JSON_parse t argsJson ctx
        = ex_executeQuery (apiExecutor t) (apiQuery t)
            (addOrOverrideFromContext argumentsNode (contextKeys t) ctx))"
  by (simp add: validateAndExecuteFromString_def validateAndExecute_def execute_def
                createInvalidCallMessage_def templateString_def Let_def)

text \<open>
  The arguments \<open>{}\<close> are valid JSON and pass the validation of \<open>ordersTool\<close>; when the
  backend of its executor is down, the rejection is what the caller gets.
\<close>

theorem validateAndExecuteFromString_passes_rejection:
  "validateAndExecuteFromString parseExample (ordersTool\<lparr>apiExecutor := unreachableExecutor\<rparr>)
     ''{}'' shopContext
   = Inl (Error ''connect ECONNREFUSED'')"
  by code_simp

text \<open>
  \<open>{malformed\<close> gives the message for malformed JSON; \<open>{}\<close> fails the validation of the
  tool without context keys, which requires \<open>customerid\<close>; and \<open>{}\<close> is executed by
  \<open>ordersTool\<close>, whose context supplies the customer.
\<close>

theorem validateAndExecuteFromString_outcomes_witness:
  "parseExample ''{malformed'' = Inl (Error ''Unexpected token m in JSON at position 1'')
   \<and> validateAndExecuteFromString parseExample ordersTool ''{malformed'' shopContext
       = Inr (''It looks like you tried to call function `orders`, '' @
              ''but this has failed with the following error: '' @
              ''Malformed JSON: Unexpected token m in JSON at position 1. '' @
              ''Please retry to call the function again. Send ONLY the JSON as a response.'')
   \<and> parseExample ''{}'' = Inr Map.empty
   \<and> \<not> isValid (validate (ordersTool\<lparr>contextKeys := []\<rparr>) Map.empty)
   \<and> validateAndExecuteFromString parseExample (ordersTool\<lparr>contextKeys := []\<rparr>) ''{}'' shopContext
       = Inr (''It looks like you tried to call function `orders`, '' @
              ''but this has failed with the following error: '' @
              ''required argument missing. '' @
              ''Please retry to call the function again. Send ONLY the JSON as a response.'')
   \<and> isValid (validate ordersTool Map.empty)
   \<and> validateAndExecuteFromString parseExample ordersTool ''{}'' shopContext = Inr ''{orders: []}''"
proof -
  note main = validateAndExecuteFromString_outcomes[where JSON_parse = parseExample
      and ctx = shopContext]
  have a: "parseExample ''{malformed'' = Inl (Error ''Unexpected token m in JSON at position 1'')"
    by (simp add: parseExample_def)
  note a' = main[where t = ordersTool, THEN conjunct1, THEN mp, OF a]
  have b: "parseExample ''{}'' = Inr Map.empty"
    by (simp add: parseExample_def)
  have c: "\<not> isValid (validate (ordersTool\<lparr>contextKeys := []\<rparr>) Map.empty)"
    by code_simp
  note c' = main[where t = "ordersTool\<lparr>contextKeys := []\<rparr>", THEN conjunct2, THEN conjunct1,
                 THEN mp, THEN mp, OF b c]
  have c'': "templateString (errorMessage (validate (ordersTool\<lparr>contextKeys := []\<rparr>) Map.empty))
               = ''required argument missing''"
    by code_simp
  have d: "isValid (validate ordersTool Map.empty)"
    by code_simp
  note d' = main[where t = ordersTool, THEN conjunct2, THEN conjunct2, THEN mp, THEN mp, OF b d]
  have d'': "ex_executeQuery (apiExecutor ordersTool) (apiQuery ordersTool)
               (addOrOverrideFromContext Map.empty (contextKeys ordersTool) shopContext)
             = Inr ''{orders: []}''"
    by code_simp
  have n: "fd_name (func ordersTool) = ''orders''"
    "fd_name (func (ordersTool\<lparr>contextKeys := []\<rparr>)) = ''orders''"
    by (simp_all add: ordersTool_def)
  show ?thesis
    using a a' b c c' c'' d d' d'' n by simp
qed

section \<open>Executing tool calls by name\<close>

lemma toolsMap_None: "name \<notin> getName ` set toolDefinitions \<Longrightarrow> toolsMap toolDefinitions name = None"
  by (force simp: toolsMap_def map_of_eq_None_iff image_iff)

lemma Promise_all_Inr: "Promise_all ps = Inr vs \<longleftrightarrow> ps = map Inr vs"
proof (induction ps arbitrary: vs rule: Promise_all.induct)
  case 1
  show ?case by auto
next
  case (2 e ps)
  show ?case by (cases vs) auto
next
  case (3 v ps)
  show ?case
  proof (cases "Promise_all ps")
    case (Inl e)
    have "ps \<noteq> map Inr vs'" for vs'
      using "3.IH"[of vs'] Inl by simp
    with Inl show ?thesis by (cases vs) auto
  next
    case (Inr vs')
    then have "ps = map Inr vs'"
      using "3.IH"[of vs'] by simp
    with Inr show ?thesis
      by (cases vs) (auto simp: inj_map_eq_map)
  qed
qed

text \<open>
  C10.  A single call whose name is the name of no tool in the definitions resolves to
  the empty string.  An array of calls resolves exactly when every call resolves on its
  own, and then to the list of their results, in the order of the calls.
\<close>

theorem executeTools_unknown_name_and_order:
  "(tc_name toolCall \<notin> getName ` set toolDefinitions \<longrightarrow>
      executeTools_single toolCall toolDefinitions = Inr [])
   \<and> (executeTools_array toolsToCall toolDefinitions = Inr results \<longleftrightarrow>
        map (\<lambda>toolCall. executeTools_single toolCall toolDefinitions) toolsToCall = map Inr results)
   \<and> (executeTools_array toolsToCall toolDefinitions = Inr results \<longrightarrow>
        length results = length toolsToCall
        \<and> (\<forall>i < length toolsToCall.
              executeTools_single (toolsToCall ! i) toolDefinitions = Inr (results ! i)))"
proof (intro conjI impI)
  assume "tc_name toolCall \<notin> getName ` set toolDefinitions"
  then show "executeTools_single toolCall toolDefinitions = Inr []"
    by (simp add: executeTools_single_def toolsMap_None)
next
  show iff: "executeTools_array toolsToCall toolDefinitions = Inr results \<longleftrightarrow>
        map (\<lambda>toolCall. executeTools_single toolCall toolDefinitions) toolsToCall = map Inr results"
    by (simp add: executeTools_array_def Promise_all_Inr)
  assume "executeTools_array toolsToCall toolDefinitions = Inr results"
  with iff have eq:
    "map (\<lambda>toolCall. executeTools_single toolCall toolDefinitions) toolsToCall = map Inr results"
    by simp
  then show len: "length results = length toolsToCall"
    by (metis length_map)
  show "\<forall>i < length toolsToCall.
              executeTools_single (toolsToCall ! i) toolDefinitions = Inr (results ! i)"
  proof (intro allI impI)
    fix i assume i: "i < length toolsToCall"
    from eq have "map (\<lambda>toolCall. executeTools_single toolCall toolDefinitions) toolsToCall ! i
                    = map Inr results ! i" by simp
    with i len show "executeTools_single (toolsToCall ! i) toolDefinitions = Inr (results ! i)"
      by simp
  qed
qed

text \<open>
  Against the tools of the shop, a call of \<open>orders\<close>, a call of an unknown tool and a
  call of \<open>addOrder\<close> resolve to the three results in that order, the middle one empty.
\<close>

theorem executeTools_unknown_name_and_order_witness:
  "''lookup'' \<notin> getName ` set (fst (convertSchema shopConverter))
   \<and> executeTools_single \<lparr>tc_name = ''lookup'', tc_arguments = Map.empty\<rparr>
        (fst (convertSchema shopConverter)) = Inr []
   \<and> executeTools_array
        [\<lparr>tc_name = ''orders'', tc_arguments = [''limit'' \<mapsto> JNumber 10]\<rparr>,
         \<lparr>tc_name = ''lookup'', tc_arguments = Map.empty\<rparr>,
         \<lparr>tc_name = ''addOrder'', tc_arguments = Map.empty\<rparr>]
        (fst (convertSchema shopConverter))
       = Inr [''ok'', [], ''ok'']
   \<and> executeTools_single \<lparr>tc_name = ''addOrder'', tc_arguments = Map.empty\<rparr>
        (fst (convertSchema shopConverter)) = Inr ''ok''"
proof -
  let ?calls = "[\<lparr>tc_name = ''orders'', tc_arguments = [''limit'' \<mapsto> JNumber 10]\<rparr>,
         \<lparr>tc_name = ''lookup'', tc_arguments = Map.empty\<rparr>,
         \<lparr>tc_name = ''addOrder'', tc_arguments = Map.empty\<rparr>]"
  note main = executeTools_unknown_name_and_order[where toolDefinitions = "fst (convertSchema shopConverter)"]
  have a: "''lookup'' \<notin> getName ` set (fst (convertSchema shopConverter))"
    by code_simp
  then have a': "tc_name \<lparr>tc_name = ''lookup'', tc_arguments = Map.empty\<rparr>
                   \<notin> getName ` set (fst (convertSchema shopConverter))"
    by simp
  note b = main[THEN conjunct1, THEN mp, OF a']
  have c: "executeTools_array ?calls (fst (convertSchema shopConverter)) = Inr [''ok'', [], ''ok'']"
    by code_simp
  note each = main[where toolsToCall = ?calls, THEN conjunct2, THEN conjunct2, THEN mp, OF c,
                   THEN conjunct2, THEN spec, of 2]
  then have d: "executeTools_single \<lparr>tc_name = ''addOrder'', tc_arguments = Map.empty\<rparr>
        (fst (convertSchema shopConverter)) = Inr ''ok''"
    by simp
  show ?thesis
    using a b c d by simp
qed

end
